(* ===== verification/Prelude.thy ===== *)
theory Prelude
  imports Main
begin

text \<open>
  Shared vocabulary of the development. A JavaScript computation that may throw is a
  value of a sum type \<open>'e + 'a\<close>: \<open>Inl\<close> carries the thrown error, \<open>Inr\<close> the
  result. \<open>bind_res\<close> sequences two such computations (the first exception aborts the
  rest), \<open>mapM_res\<close> is \<open>Array.prototype.map\<close> with a callback that may throw, and
  \<open>foldM_res\<close> is a loop over an array that threads an accumulator (the
  \<open>categories.push(...)\<close> pattern of the code). The lemmas here are generic facts about
  these combinators that every component proof uses.
\<close>

named_theorems res_simps "evaluation rules for the result combinators"
named_theorems js_eval "unfolding rules that evaluate the model on concrete values"

definition bind_res :: "'e + 'a \<Rightarrow> ('a \<Rightarrow> 'e + 'b) \<Rightarrow> 'e + 'b" where
  "bind_res m f = (case m of Inl e \<Rightarrow> Inl e | Inr a \<Rightarrow> f a)"

fun mapM_res :: "('a \<Rightarrow> 'e + 'b) \<Rightarrow> 'a list \<Rightarrow> 'e + 'b list" where
  "mapM_res f [] = Inr []"
| "mapM_res f (x # xs) = bind_res (f x) (\<lambda>y. bind_res (mapM_res f xs) (\<lambda>ys. Inr (y # ys)))"

fun foldM_res :: "('s \<Rightarrow> 'a \<Rightarrow> 'e + 's) \<Rightarrow> 's \<Rightarrow> 'a list \<Rightarrow> 'e + 's" where
  "foldM_res f s [] = Inr s"
| "foldM_res f s (x # xs) = bind_res (f s x) (\<lambda>s'. foldM_res f s' xs)"

subsection \<open>Sequencing\<close>

lemma bind_res_Inl [simp, res_simps]: "bind_res (Inl e) f = Inl e"
  by (simp add: bind_res_def)

lemma bind_res_Inr [simp, res_simps]: "bind_res (Inr a) f = f a"
  by (simp add: bind_res_def)

lemma bind_res_eq_Inr [res_simps]:
  "bind_res m f = Inr b \<longleftrightarrow> (\<exists>a. m = Inr a \<and> f a = Inr b)"
  by (cases m) auto

lemma bind_res_eq_Inl [res_simps]:
  "bind_res m f = Inl e \<longleftrightarrow> m = Inl e \<or> (\<exists>a. m = Inr a \<and> f a = Inl e)"
  by (cases m) auto

lemma bind_res_assoc [simp]:
  "bind_res (bind_res m f) g = bind_res m (\<lambda>a. bind_res (f a) g)"
  by (cases m) auto

lemma bind_res_Inr_right [simp]: "bind_res m Inr = m"
  by (cases m) auto

subsection \<open>All-or-nothing map\<close>

lemma mapM_res_pure [simp]: "mapM_res (\<lambda>x. Inr (g x)) xs = Inr (map g xs)"
  by (induction xs) auto

lemma mapM_res_map: "mapM_res f (map g xs) = mapM_res (\<lambda>x. f (g x)) xs"
  by (induction xs) auto

lemma mapM_res_append:
  "mapM_res f (xs @ ys) =
     bind_res (mapM_res f xs) (\<lambda>as. bind_res (mapM_res f ys) (\<lambda>bs. Inr (as @ bs)))"
  by (induction xs) (auto simp: bind_res_def split: sum.splits)

lemma mapM_res_Inr_iff:
  "mapM_res f xs = Inr ys \<longleftrightarrow> list_all2 (\<lambda>x y. f x = Inr y) xs ys"
proof (induction xs arbitrary: ys)
  case Nil
  then show ?case by auto
next
  case (Cons x xs)
  then show ?case
    by (cases ys) (auto simp: bind_res_eq_Inr)
qed

lemma mapM_res_length: "mapM_res f xs = Inr ys \<Longrightarrow> length ys = length xs"
  by (auto simp: mapM_res_Inr_iff dest: list_all2_lengthD)

lemma mapM_res_cong:
  "(\<And>x. x \<in> set xs \<Longrightarrow> f x = g x) \<Longrightarrow> mapM_res f xs = mapM_res g xs"
  by (induction xs) auto

lemma mapM_res_all_Inr:
  "(\<And>x. x \<in> set xs \<Longrightarrow> \<exists>y. f x = Inr y) \<Longrightarrow> \<exists>ys. mapM_res f xs = Inr ys"
  by (induction xs) fastforce+

lemma mapM_res_succeeds_iff:
  "(\<exists>ys. mapM_res f xs = Inr ys) \<longleftrightarrow> (\<forall>x \<in> set xs. \<exists>y. f x = Inr y)"
proof
  assume "\<exists>ys. mapM_res f xs = Inr ys"
  then obtain ys where "list_all2 (\<lambda>x y. f x = Inr y) xs ys"
    by (auto simp: mapM_res_Inr_iff)
  then show "\<forall>x \<in> set xs. \<exists>y. f x = Inr y"
    by (induction rule: list_all2_induct) auto
qed (auto intro: mapM_res_all_Inr)

lemma mapM_res_map_Inr:
  "(\<And>x. x \<in> set xs \<Longrightarrow> f x = Inr (g x)) \<Longrightarrow> mapM_res f xs = Inr (map g xs)"
  using mapM_res_cong [of xs f "\<lambda>x. Inr (g x)"] by simp

text \<open>The first element whose callback throws decides the error; the rest are not run.\<close>

lemma mapM_res_Inl_iff:
  "mapM_res f xs = Inl e \<longleftrightarrow>
     (\<exists>ys x zs. xs = ys @ x # zs \<and> (\<forall>y \<in> set ys. \<exists>b. f y = Inr b) \<and> f x = Inl e)"
proof (induction xs)
  case Nil
  then show ?case by simp
next
  case (Cons a xs)
  show ?case
  proof (cases "f a")
    case (Inl e')
    have "mapM_res f (a # xs) = Inl e \<longleftrightarrow> e' = e" using Inl by simp
    also have "\<dots> \<longleftrightarrow> (\<exists>ys x zs. a # xs = ys @ x # zs \<and> (\<forall>y \<in> set ys. \<exists>b. f y = Inr b) \<and> f x = Inl e)"
    proof
      assume "e' = e"
      then show "\<exists>ys x zs. a # xs = ys @ x # zs \<and> (\<forall>y \<in> set ys. \<exists>b. f y = Inr b) \<and> f x = Inl e"
        using Inl by (intro exI [of _ "[]"]) simp
    next
      assume "\<exists>ys x zs. a # xs = ys @ x # zs \<and> (\<forall>y \<in> set ys. \<exists>b. f y = Inr b) \<and> f x = Inl e"
      then obtain ys x zs where "a # xs = ys @ x # zs" "\<forall>y \<in> set ys. \<exists>b. f y = Inr b" "f x = Inl e"
        by blast
      with Inl show "e' = e" by (cases ys) auto
    qed
    finally show ?thesis .
  next
    case (Inr b)
    have "mapM_res f (a # xs) = Inl e \<longleftrightarrow> mapM_res f xs = Inl e"
      using Inr by (cases "mapM_res f xs") auto
    also have "\<dots> \<longleftrightarrow> (\<exists>ys x zs. a # xs = ys @ x # zs \<and> (\<forall>y \<in> set ys. \<exists>b. f y = Inr b) \<and> f x = Inl e)"
      unfolding Cons.IH
    proof
      assume "\<exists>ys x zs. xs = ys @ x # zs \<and> (\<forall>y \<in> set ys. \<exists>b. f y = Inr b) \<and> f x = Inl e"
      then obtain ys x zs where "xs = ys @ x # zs" "\<forall>y \<in> set ys. \<exists>b. f y = Inr b" "f x = Inl e"
        by blast
      with Inr show "\<exists>ys x zs. a # xs = ys @ x # zs \<and> (\<forall>y \<in> set ys. \<exists>b. f y = Inr b) \<and> f x = Inl e"
        by (intro exI [of _ "a # ys"]) auto
    next
      assume "\<exists>ys x zs. a # xs = ys @ x # zs \<and> (\<forall>y \<in> set ys. \<exists>b. f y = Inr b) \<and> f x = Inl e"
      then obtain ys x zs where eq: "a # xs = ys @ x # zs" and ok: "\<forall>y \<in> set ys. \<exists>b. f y = Inr b"
        and err: "f x = Inl e"
        by blast
      with Inr obtain ys' where "ys = a # ys'" by (cases ys) auto
      with eq ok err show "\<exists>ys x zs. xs = ys @ x # zs \<and> (\<forall>y \<in> set ys. \<exists>b. f y = Inr b) \<and> f x = Inl e"
        by auto
    qed
    finally show ?thesis .
  qed
qed

lemma mapM_res_Inl_ex:
  "mapM_res f xs = Inl e \<Longrightarrow> \<exists>x \<in> set xs. f x = Inl e"
  by (auto simp: mapM_res_Inl_iff)

lemma mapM_res_Inl_intro:
  "x \<in> set xs \<Longrightarrow> f x = Inl e \<Longrightarrow> \<exists>e'. mapM_res f xs = Inl e'"
proof (induction xs)
  case Nil
  then show ?case by simp
next
  case (Cons y ys)
  then show ?case by (cases "f y"; cases "mapM_res f ys") auto
qed

subsection \<open>Loops with an accumulator\<close>

lemma foldM_res_append:
  "foldM_res f s (xs @ ys) = bind_res (foldM_res f s xs) (\<lambda>s'. foldM_res f s' ys)"
  by (induction xs arbitrary: s) auto

text \<open>
  A loop whose body only appends to the accumulator is the concatenation of what each
  iteration appends: the accumulator form of the code equals the all-or-nothing map
  followed by \<open>concat\<close>.
\<close>

lemma foldM_res_append_acc:
  assumes "\<And>acc x. f acc x = bind_res (g x) (\<lambda>ys. Inr (acc @ ys))"
  shows "foldM_res f acc xs = bind_res (mapM_res g xs) (\<lambda>yss. Inr (acc @ concat yss))"
proof (induction xs arbitrary: acc)
  case Nil
  then show ?case by simp
next
  case (Cons x xs)
  then show ?case
    by (cases "g x"; cases "mapM_res g xs") (simp_all add: assms)
qed

end
