(* ===== verification/ParseInt.thy ===== *)
theory ParseInt
  imports Prelude
begin

text \<open>
  The numbers of the program and the two conversions between numbers and strings it
  relies on: the global \<open>parseInt\<close> (ECMAScript, \<open>parseInt(string, radix)\<close> with the
  radix left undefined, as \<open>parseCategories\<close> calls it) and the decimal printing of an
  integral number (\<open>Number.prototype.toString\<close>, used when a number is put into a
  template literal or concatenated to a string).

  A JavaScript number here is \<open>NaN\<close> or an integral value \<open>Num i\<close>: every number the
  code produces comes from \<open>parseInt\<close>, whose results are integral or \<open>NaN\<close>. The
  model keeps the exact integer; IEEE rounding of values beyond \<open>2^53\<close> is not modelled,
  nor the distinction between \<open>-0\<close> and \<open>+0\<close> (\<open>parseInt("-0")\<close> is \<open>-0\<close>, which no
  operation of the code tells apart from \<open>0\<close>). Strings are \<open>char\<close> lists; the
  whitespace \<open>parseInt\<close> skips is the ASCII part of ECMAScript's WhiteSpace and
  LineTerminator sets.
\<close>

datatype jsnum = NaN | Num int

subsection \<open>Printing integral numbers\<close>

definition digit_char :: "nat \<Rightarrow> char" where
  "digit_char d = char_of (48 + d)"

fun nat_digits :: "nat \<Rightarrow> nat list" where
  "nat_digits n = (if n < 10 then [n] else nat_digits (n div 10) @ [n mod 10])"

declare nat_digits.simps [simp del]

definition string_of_nat :: "nat \<Rightarrow> string" where
  "string_of_nat n = map digit_char (nat_digits n)"

definition string_of_int :: "int \<Rightarrow> string" where
  "string_of_int i =
     (if i < 0 then CHR ''-'' # string_of_nat (nat (- i)) else string_of_nat (nat i))"

text \<open>\<open>String(x)\<close> for a number \<open>x\<close> of the model.\<close>

fun num_to_string :: "jsnum \<Rightarrow> string" where
  "num_to_string NaN = ''NaN''"
| "num_to_string (Num i) = string_of_int i"

subsection \<open>parseInt\<close>

text \<open>
  The steps of ECMAScript's \<open>parseInt(string, undefined)\<close> on the string value:
  strip leading whitespace; read an optional sign; with the radix undefined, a leading
  \<open>0x\<close> or \<open>0X\<close> selects radix 16, otherwise radix 10; take the longest prefix of
  digits of that radix; no digit at all gives \<open>NaN\<close>, anything after the digits is
  ignored.
\<close>

definition js_whitespace :: "char \<Rightarrow> bool" where
  "js_whitespace c = (of_char c \<in> {9, 10, 11, 12, 13, 32 :: nat})"

definition digit_value :: "char \<Rightarrow> nat option" where
  "digit_value c =
     (let n = (of_char c :: nat) in
      if 48 \<le> n \<and> n \<le> 57 then Some (n - 48)
      else if 97 \<le> n \<and> n \<le> 122 then Some (n - 87)
      else if 65 \<le> n \<and> n \<le> 90 then Some (n - 55)
      else None)"

fun scan_digits :: "nat \<Rightarrow> string \<Rightarrow> nat list" where
  "scan_digits r [] = []"
| "scan_digits r (c # cs) =
     (case digit_value c of
        Some d \<Rightarrow> if d < r then d # scan_digits r cs else []
      | None \<Rightarrow> [])"

definition digits_to_nat :: "nat \<Rightarrow> nat list \<Rightarrow> nat" where
  "digits_to_nat r ds = foldl (\<lambda>acc d. acc * r + d) 0 ds"

definition strip_sign :: "string \<Rightarrow> int \<times> string" where
  "strip_sign s =
     (case s of
        c # cs \<Rightarrow> if c = CHR ''-'' then (-1, cs) else if c = CHR ''+'' then (1, cs) else (1, s)
      | [] \<Rightarrow> (1, []))"

definition strip_radix_prefix :: "string \<Rightarrow> nat \<times> string" where
  "strip_radix_prefix s =
     (if take 2 s = ''0x'' \<or> take 2 s = ''0X'' then (16, drop 2 s) else (10, s))"

definition parse_int_str :: "string \<Rightarrow> jsnum" where
  "parse_int_str s =
     (let (sign, s1) = strip_sign (dropWhile js_whitespace s);
          (r, s2) = strip_radix_prefix s1;
          ds = scan_digits r s2
      in if ds = [] then NaN else Num (sign * int (digits_to_nat r ds)))"

text \<open>
  What may follow the digits of a number without changing the value \<open>parseInt\<close>
  reads: no decimal digit, and no \<open>x\<close> or \<open>X\<close> (after a lone \<open>0\<close> these
  would start a hexadecimal literal).
\<close>

definition number_end :: "string \<Rightarrow> bool" where
  "number_end rest \<longleftrightarrow> scan_digits 10 rest = [] \<and> take 1 rest \<noteq> ''x'' \<and> take 1 rest \<noteq> ''X''"

text \<open>A decimal digit character.\<close>

definition dec_digit :: "char \<Rightarrow> bool" where
  "dec_digit c \<longleftrightarrow> 48 \<le> (of_char c :: nat) \<and> (of_char c :: nat) \<le> 57"

subsection \<open>Printing and parsing agree\<close>

text \<open>
  The characters \<open>string_of_int\<close> writes are decimal digits and at most a leading minus
  sign, so each step of \<open>parseInt\<close> passes them through unchanged and the digits read
  back give the number printed; leading whitespace is skipped and whatever follows the
  number is ignored when it cannot extend it.
\<close>

lemma of_char_digit_char [simp]: "d < 10 \<Longrightarrow> of_char (digit_char d) = 48 + d"
  by (simp add: digit_char_def)

lemma digit_value_digit_char [simp]: "d < 10 \<Longrightarrow> digit_value (digit_char d) = Some d"
  by (simp add: digit_value_def)

lemma js_whitespace_digit_char [simp]: "d < 10 \<Longrightarrow> \<not> js_whitespace (digit_char d)"
  by (simp add: js_whitespace_def)

lemma digit_char_range: "d < 10 \<Longrightarrow> digit_char d = c \<Longrightarrow> 48 \<le> (of_char c :: nat) \<and> (of_char c :: nat) \<le> 57"
  by auto

lemma digit_char_not_sign [simp]:
  "d < 10 \<Longrightarrow> digit_char d \<noteq> CHR ''-''" "d < 10 \<Longrightarrow> digit_char d \<noteq> CHR ''+''"
  "d < 10 \<Longrightarrow> digit_char d \<noteq> CHR ''x''" "d < 10 \<Longrightarrow> digit_char d \<noteq> CHR ''X''"
  by (fastforce dest: digit_char_range)+

lemma nat_digits_ne [simp]: "nat_digits n \<noteq> []"
  by (subst nat_digits.simps) simp

lemma nat_digits_lt: "d \<in> set (nat_digits n) \<Longrightarrow> d < 10"
proof (induction n rule: nat_digits.induct)
  case (1 n)
  then show ?case
    by (cases "n < 10") (auto simp: nat_digits.simps [of n])
qed

lemma digits_to_nat_nat_digits: "digits_to_nat 10 (nat_digits n) = n"
proof (induction n rule: nat_digits.induct)
  case (1 n)
  then show ?case
    by (cases "n < 10") (simp_all add: nat_digits.simps [of n] digits_to_nat_def)
qed

lemma scan_digits_map_digit_char:
  "(\<And>d. d \<in> set ds \<Longrightarrow> d < 10) \<Longrightarrow> scan_digits 10 (map digit_char ds) = ds"
  by (induction ds) auto

text \<open>How each step of \<open>parseInt\<close> sees a printed natural number.\<close>

lemma string_of_nat_cases:
  obtains d ds where "string_of_nat n = digit_char d # map digit_char ds" and "d < 10"
    and "\<And>d'. d' \<in> set ds \<Longrightarrow> d' < 10"
proof -
  obtain d ds where "nat_digits n = d # ds" by (cases "nat_digits n") auto
  with nat_digits_lt [of _ n] show ?thesis
    by (intro that [of d ds]) (auto simp: string_of_nat_def)
qed

lemma scan_digits_append:
  "(\<And>d. d \<in> set ds \<Longrightarrow> d < 10) \<Longrightarrow>
     scan_digits 10 (map digit_char ds @ rest) = ds @ scan_digits 10 rest"
  by (induction ds) auto

lemma dropWhile_ws_prefix:
  "(\<forall>c \<in> set ws. js_whitespace c) \<Longrightarrow> dropWhile js_whitespace (ws @ s) = dropWhile js_whitespace s"
  by (induction ws) auto

lemma string_of_nat_prefix_steps:
  assumes "number_end rest"
  shows "dropWhile js_whitespace (string_of_nat n @ rest) = string_of_nat n @ rest"
    and "strip_sign (string_of_nat n @ rest) = (1, string_of_nat n @ rest)"
    and "strip_radix_prefix (string_of_nat n @ rest) = (10, string_of_nat n @ rest)"
    and "scan_digits 10 (string_of_nat n @ rest) = nat_digits n"
proof -
  obtain d ds where s: "string_of_nat n = digit_char d # map digit_char ds" and d: "d < 10"
    and ds: "\<And>d'. d' \<in> set ds \<Longrightarrow> d' < 10"
    using string_of_nat_cases [of n] by blast
  show "dropWhile js_whitespace (string_of_nat n @ rest) = string_of_nat n @ rest"
    using s d by simp
  show "strip_sign (string_of_nat n @ rest) = (1, string_of_nat n @ rest)"
    using s d by (simp add: strip_sign_def)
  have "take 2 (string_of_nat n @ rest) \<noteq> ''0x'' \<and> take 2 (string_of_nat n @ rest) \<noteq> ''0X''"
  proof (cases ds)
    case Nil
    with s d assms show ?thesis by (cases rest) (auto simp: number_end_def)
  next
    case (Cons d' ds')
    with s d ds show ?thesis by auto
  qed
  then show "strip_radix_prefix (string_of_nat n @ rest) = (10, string_of_nat n @ rest)"
    by (simp add: strip_radix_prefix_def)
  show "scan_digits 10 (string_of_nat n @ rest) = nat_digits n"
    using assms nat_digits_lt [of _ n]
    by (simp add: string_of_nat_def scan_digits_append number_end_def)
qed

theorem parse_int_str_prefix:
  assumes "\<forall>c \<in> set ws. js_whitespace c" and "number_end rest"
  shows "parse_int_str (ws @ string_of_int i @ rest) = Num i"
proof (cases "i < 0")
  case True
  have "dropWhile js_whitespace (ws @ string_of_int i @ rest) = CHR ''-'' # string_of_nat (nat (- i)) @ rest"
    using True assms(1) by (simp add: dropWhile_ws_prefix string_of_int_def js_whitespace_def)
  then show ?thesis
    using True assms(2)
    by (simp add: parse_int_str_def strip_sign_def string_of_nat_prefix_steps digits_to_nat_nat_digits)
next
  case False
  then show ?thesis
    using assms
    by (simp add: string_of_int_def parse_int_str_def dropWhile_ws_prefix string_of_nat_prefix_steps
        digits_to_nat_nat_digits)
qed
corollary parse_int_str_string_of_int: "parse_int_str (string_of_int i) = Num i"
  using parse_int_str_prefix [of "[]" "[]" i] by (simp add: number_end_def)

subsection \<open>Decimal strings\<close>

text \<open>
  A non-empty string of decimal digits parses to the number the digits denote (leading
  zeros included), which is below \<open>10\<close> to the power of its length.
\<close>

lemma digits_to_nat_append:
  "digits_to_nat r (ds @ [d]) = digits_to_nat r ds * r + d"
  by (simp add: digits_to_nat_def)

lemma digits_to_nat_bound:
  "(\<And>d. d \<in> set ds \<Longrightarrow> d < r) \<Longrightarrow> digits_to_nat r ds < r ^ length ds"
proof (induction ds rule: rev_induct)
  case Nil
  then show ?case by (simp add: digits_to_nat_def)
next
  case (snoc d ds)
  then have ih: "Suc (digits_to_nat r ds) \<le> r ^ length ds" and d: "d < r" by auto
  have "digits_to_nat r ds * r + d < Suc (digits_to_nat r ds) * r"
    using d by simp
  also have "\<dots> \<le> r ^ length ds * r"
    using ih by (rule mult_le_mono1)
  finally show ?case by (simp add: digits_to_nat_append mult.commute)
qed

lemma dec_digit_value: "dec_digit c \<Longrightarrow> digit_value c = Some (of_char c - 48)"
  by (simp add: dec_digit_def digit_value_def)

lemma dec_digit_not_special:
  "dec_digit c \<Longrightarrow> \<not> js_whitespace c \<and> c \<noteq> CHR ''-'' \<and> c \<noteq> CHR ''+'' \<and> c \<noteq> CHR ''x'' \<and> c \<noteq> CHR ''X''"
  by (auto simp: dec_digit_def js_whitespace_def)

lemma scan_digits_dec:
  "\<forall>c \<in> set s. dec_digit c \<Longrightarrow> scan_digits 10 s = map (\<lambda>c. of_char c - 48) s"
  by (induction s) (auto simp: dec_digit_value dec_digit_def)

theorem parse_int_str_decimal:
  assumes "s \<noteq> []" and "\<forall>c \<in> set s. dec_digit c"
  shows "parse_int_str s = Num (int (digits_to_nat 10 (map (\<lambda>c. of_char c - 48) s)))"
proof -
  obtain c cs where s: "s = c # cs" using assms(1) by (cases s) auto
  have c: "dec_digit c" using assms(2) s by simp
  have "take 2 s \<noteq> ''0x'' \<and> take 2 s \<noteq> ''0X''"
    using assms(2) s by (cases cs) (auto dest: dec_digit_not_special)
  then have "strip_radix_prefix s = (10, s)" by (simp add: strip_radix_prefix_def)
  moreover have "dropWhile js_whitespace s = s" and "strip_sign s = (1, s)"
    using c s dec_digit_not_special [OF c] by (simp_all add: strip_sign_def)
  moreover have "scan_digits 10 s \<noteq> []"
    using assms by (simp add: scan_digits_dec)
  ultimately show ?thesis
    using assms(2) by (simp add: parse_int_str_def scan_digits_dec)
qed

lemma dec_digit_lt: "dec_digit c \<Longrightarrow> of_char c - 48 < (10::nat)"
  unfolding dec_digit_def by linarith
end
