(* ===== verification/JsValue.thy ===== *)
theory JsValue
  imports ParseInt
begin

text \<open>
  The JavaScript values the program handles and the built-in operations it applies to
  them. The XML deserializer hands the code a tree of plain objects, arrays, strings and
  numbers; \<open>jsval\<close> is that tree (objects as association lists, as a JSON object).
  Each operation below is the ECMAScript semantics of one construct the code uses:
  \<^item> \<open>truthy\<close>: ToBoolean, the test of \<open>if (x)\<close> and of \<open>a || b\<close>;
  \<^item> \<open>get_prop\<close>: the member access \<open>x.name\<close>, which throws a TypeError on
    \<open>undefined\<close> and \<open>null\<close> and yields \<open>undefined\<close> for a missing property;
  \<^item> \<open>is_array\<close>: \<open>Array.isArray\<close>;
  \<^item> \<open>to_js_string\<close>: ToString, used by template literals and by \<open>'...' + x\<close>;
  \<^item> \<open>js_or\<close>: the value of \<open>a || b\<close>;
  \<^item> \<open>parse_int\<close>: the global \<open>parseInt(x)\<close>, ToString followed by \<open>parse_int_str\<close>;
  \<^item> \<open>array_map\<close>: the call \<open>x.map(f)\<close>, a TypeError unless \<open>x\<close> is an array.
  Property access on primitives models the names the code reads (none of them is a
  member of a prototype) and \<open>length\<close>.
\<close>

datatype jsval =
    JUndef
  | JNull
  | JBool bool
  | JNum jsnum
  | JStr string
  | JArr "jsval list"
  | JObj "(string \<times> jsval) list"

text \<open>
  What the code can throw: a TypeError raised by the engine, an \<open>Error\<close> built by
  \<open>new Error(message)\<close>, and a rejection coming from an external collaborator (the
  HTTP client or the XML parser), carried with its message.
\<close>

datatype js_error = TypeError | Error string | Rejected string

type_synonym 'a js_result = "js_error + 'a"

fun truthy :: "jsval \<Rightarrow> bool" where
  "truthy JUndef = False"
| "truthy JNull = False"
| "truthy (JBool b) = b"
| "truthy (JNum NaN) = False"
| "truthy (JNum (Num i)) = (i \<noteq> 0)"
| "truthy (JStr s) = (s \<noteq> [])"
| "truthy (JArr xs) = True"
| "truthy (JObj kvs) = True"

fun get_prop :: "jsval \<Rightarrow> string \<Rightarrow> jsval js_result" where
  "get_prop JUndef k = Inl TypeError"
| "get_prop JNull k = Inl TypeError"
| "get_prop (JObj kvs) k = Inr (case map_of kvs k of Some v \<Rightarrow> v | None \<Rightarrow> JUndef)"
| "get_prop (JArr xs) k =
     Inr (if k = ''length'' then JNum (Num (int (length xs))) else JUndef)"
| "get_prop (JStr s) k =
     Inr (if k = ''length'' then JNum (Num (int (length s))) else JUndef)"
| "get_prop (JBool b) k = Inr JUndef"
| "get_prop (JNum n) k = Inr JUndef"

fun is_array :: "jsval \<Rightarrow> bool" where
  "is_array (JArr xs) = True"
| "is_array v = False"

text \<open>
  ToString. An array prints as \<open>join(",")\<close> of its elements, where \<open>undefined\<close> and
  \<open>null\<close> print as the empty string; a plain object prints as \<open>[object Object]\<close>.
\<close>

fun js_join :: "string \<Rightarrow> string list \<Rightarrow> string" where
  "js_join sep [] = []"
| "js_join sep [x] = x"
| "js_join sep (x # xs) = x @ sep @ js_join sep xs"

fun to_js_string :: "jsval \<Rightarrow> string" where
  "to_js_string JUndef = ''undefined''"
| "to_js_string JNull = ''null''"
| "to_js_string (JBool b) = (if b then ''true'' else ''false'')"
| "to_js_string (JNum n) = num_to_string n"
| "to_js_string (JStr s) = s"
| "to_js_string (JArr xs) =
     js_join '','' (map (\<lambda>x. if x = JUndef \<or> x = JNull then [] else to_js_string x) xs)"
| "to_js_string (JObj kvs) = ''[object Object]''"

definition js_or :: "jsval \<Rightarrow> jsval \<Rightarrow> jsval" where
  "js_or a b = (if truthy a then a else b)"

definition parse_int :: "jsval \<Rightarrow> jsnum" where
  "parse_int v = parse_int_str (to_js_string v)"

fun array_map :: "(jsval \<Rightarrow> 'b js_result) \<Rightarrow> jsval \<Rightarrow> 'b list js_result" where
  "array_map f (JArr xs) = mapM_res f xs"
| "array_map f v = Inl TypeError"

declare js_or_def [js_eval] parse_int_def [js_eval] string_of_int_def [js_eval]
  string_of_nat_def [js_eval] digit_char_def [js_eval] nat_digits.simps [js_eval]
  char_of_eq_iff [js_eval] parse_int_str_def [js_eval] strip_sign_def [js_eval]
  strip_radix_prefix_def [js_eval] js_whitespace_def [js_eval] digit_value_def [js_eval]
  digits_to_nat_def [js_eval]

subsection \<open>Basic facts\<close>

lemma get_prop_Inl_iff: "get_prop v k = Inl e \<longleftrightarrow> (v = JUndef \<or> v = JNull) \<and> e = TypeError"
  by (cases v) auto

lemma get_prop_defined: "v \<noteq> JUndef \<Longrightarrow> v \<noteq> JNull \<Longrightarrow> \<exists>w. get_prop v k = Inr w"
  by (cases v) auto

lemma parse_int_string_of_int [simp]: "parse_int (JStr (string_of_int i)) = Num i"
  by (simp add: parse_int_def parse_int_str_string_of_int)

lemma array_map_not_array: "\<not> is_array v \<Longrightarrow> array_map f v = Inl TypeError"
  by (cases v) auto

lemma js_or_empty [simp]: "js_or (JStr []) b = b" "js_or JUndef b = b"
  by (simp_all add: js_or_def)

lemma js_or_nonempty [simp]: "s \<noteq> [] \<Longrightarrow> js_or (JStr s) b = JStr s"
  by (simp add: js_or_def)

end
