(* ===== verification/XmlShape.thy ===== *)
theory XmlShape
  imports JsValue
begin

text \<open>
  The shape of what the XML deserializer (fast-xml-parser's \<open>parse\<close>, an external
  collaborator) returns for an element that carries attributes and child elements but
  no text: a plain object with one string field per attribute (named by the option
  \<open>attributeNamePrefix\<close> followed by the attribute name, dropped altogether under
  \<open>ignoreAttributes\<close>) and one field per child tag; a tag that occurs once holds the
  child itself, a repeated tag holds an array of the children, and an element with
  neither attributes nor children is the empty string. This is the single-versus-list
  ambiguity of spec section 3. The definitions describe inputs for the theorems; they
  are not code of the repository; XmlTree derives them from a model of the conversion.
\<close>

record parse_options =
  attributeNamePrefix :: string
  ignoreAttributes :: bool

definition xml_collapse :: "jsval list \<Rightarrow> jsval" where
  "xml_collapse vs = (case vs of [v] \<Rightarrow> v | _ \<Rightarrow> JArr vs)"

definition xml_element ::
  "parse_options \<Rightarrow> (string \<times> string) list \<Rightarrow> (string \<times> jsval list) list \<Rightarrow> jsval" where
  "xml_element opts attrs children =
     (let afields = (if ignoreAttributes opts then []
                     else map (\<lambda>(k, s). (attributeNamePrefix opts @ k, JStr s)) attrs);
          cfields = map (\<lambda>(t, vs). (t, xml_collapse vs)) (filter (\<lambda>(t, vs). vs \<noteq> []) children);
          fields = afields @ cfields
      in if fields = [] then JStr [] else JObj fields)"

text \<open>Options that keep every attribute under its own name, as the program's \<open>parseOpts\<close>.\<close>

definition plain_attributes :: "parse_options \<Rightarrow> bool" where
  "plain_attributes opts \<longleftrightarrow> attributeNamePrefix opts = [] \<and> \<not> ignoreAttributes opts"

lemma xml_collapse_single [simp]: "xml_collapse [v] = v"
  by (simp add: xml_collapse_def)

lemma xml_collapse_many: "2 \<le> length vs \<Longrightarrow> xml_collapse vs = JArr vs"
  by (cases vs rule: remdups_adj.cases) (auto simp: xml_collapse_def)

lemma xml_collapse_Nil [simp]: "xml_collapse [] = JArr []"
  by (simp add: xml_collapse_def)

text \<open>With plain attributes and at least one attribute, the element is an object whose
  attribute fields come first, in document order.\<close>

lemma xml_element_plain:
  assumes "plain_attributes opts" and "attrs \<noteq> []"
  shows "xml_element opts attrs children =
           JObj (map (\<lambda>(k, s). (k, JStr s)) attrs @
                 map (\<lambda>(t, vs). (t, xml_collapse vs)) (filter (\<lambda>(t, vs). vs \<noteq> []) children))"
  using assms by (simp add: xml_element_def plain_attributes_def Let_def)

end
