(* ===== verification/Categories.thy ===== *)
theory Categories
  imports XmlShape
begin

text \<open>
  \<open>Jackett.parseCategories\<close> (src/src/jackett.ts, lines 42--65), the category flattening
  of the Indexer Normalizer. The code turns a non-array argument into a one-element
  array, then for each category pushes \<open>parseInt(cat.id)\<close> onto the result and, when
  \<open>cat.subcat\<close> is truthy, pushes \<open>parseInt\<close> of the id of each subcategory (an array)
  or of the single subcategory (an object). The loop is modelled as a fold over the array
  that threads the result array; a member access on \<open>undefined\<close> or \<open>null\<close> is a
  TypeError that aborts the whole call.

  The lemmas give the code's behaviour as a reference function (each category's ids,
  concatenated), refine it to the abstract category tree of spec section 3, classify its
  errors, and bound the values it pushes for decimal identifiers.
\<close>

subsection \<open>The code\<close>

fun as_array :: "jsval \<Rightarrow> jsval list" where
  "as_array (JArr xs) = xs"
| "as_array v = [v]"

definition push_subcat :: "jsnum list \<Rightarrow> jsval \<Rightarrow> jsnum list js_result" where
  "push_subcat acc subCat = bind_res (get_prop subCat ''id'') (\<lambda>i. Inr (acc @ [parse_int i]))"

definition push_category :: "jsnum list \<Rightarrow> jsval \<Rightarrow> jsnum list js_result" where
  "push_category acc cat =
     bind_res (get_prop cat ''id'') (\<lambda>i.
       let acc1 = acc @ [parse_int i] in
       bind_res (get_prop cat ''subcat'') (\<lambda>sub.
         if truthy sub then
           (if is_array sub then foldM_res push_subcat acc1 (as_array sub)
            else push_subcat acc1 sub)
         else Inr acc1))"

definition parse_categories :: "jsval \<Rightarrow> jsnum list js_result" where
  "parse_categories category = foldM_res push_category [] (as_array category)"

subsection \<open>Reference: the ids of each category, concatenated\<close>

definition subcat_ids :: "jsval \<Rightarrow> jsnum list js_result" where
  "subcat_ids s = bind_res (get_prop s ''id'') (\<lambda>i. Inr [parse_int i])"

definition category_ids :: "jsval \<Rightarrow> jsnum list js_result" where
  "category_ids cat =
     bind_res (get_prop cat ''id'') (\<lambda>i.
       bind_res (get_prop cat ''subcat'') (\<lambda>sub.
         if truthy sub
         then bind_res (mapM_res subcat_ids (as_array sub)) (\<lambda>nss. Inr (parse_int i # concat nss))
         else Inr [parse_int i]))"

text \<open>A value on which a member access does not throw.\<close>

definition js_defined :: "jsval \<Rightarrow> bool" where
  "js_defined v \<longleftrightarrow> v \<noteq> JUndef \<and> v \<noteq> JNull"

subsection \<open>The abstract category tree\<close>

text \<open>
  The abstract data of spec section 3: a category has an integer id, a name, and
  subcategories with an id and a name. The flattened list is the id of each category
  followed by the ids of its subcategories, categories in source order. The XML
  deserializer encodes a category as an element with attributes \<open>id\<close> and \<open>name\<close>
  and one \<open>subcat\<close> child per subcategory.
\<close>

datatype category = Category (cat_id: int) (cat_name: string) (cat_subcats: "(int \<times> string) list")

definition cat_flatten :: "category list \<Rightarrow> int list" where
  "cat_flatten cs = concat (map (\<lambda>c. cat_id c # map fst (cat_subcats c)) cs)"

definition enc_subcat :: "parse_options \<Rightarrow> int \<times> string \<Rightarrow> jsval" where
  "enc_subcat opts s = xml_element opts [(''id'', string_of_int (fst s)), (''name'', snd s)] []"

definition enc_category :: "parse_options \<Rightarrow> category \<Rightarrow> jsval" where
  "enc_category opts c =
     xml_element opts [(''id'', string_of_int (cat_id c)), (''name'', cat_name c)]
       [(''subcat'', map (enc_subcat opts) (cat_subcats c))]"

definition enc_category_list :: "parse_options \<Rightarrow> category list \<Rightarrow> jsval" where
  "enc_category_list opts cs = xml_collapse (map (enc_category opts) cs)"

subsection \<open>The loop computes the reference\<close>

lemma as_array_not_array [simp]: "\<not> is_array v \<Longrightarrow> as_array v = [v]"
  by (cases v) auto

lemma push_subcat_acc: "push_subcat acc s = bind_res (subcat_ids s) (\<lambda>ys. Inr (acc @ ys))"
  by (cases "get_prop s ''id''") (simp_all add: push_subcat_def subcat_ids_def)

lemma foldM_push_subcat:
  "foldM_res push_subcat acc ss = bind_res (mapM_res subcat_ids ss) (\<lambda>nss. Inr (acc @ concat nss))"
  by (rule foldM_res_append_acc) (rule push_subcat_acc)

lemma push_category_acc:
  "push_category acc cat = bind_res (category_ids cat) (\<lambda>ys. Inr (acc @ ys))"
proof (cases "get_prop cat ''id''")
  case (Inl e)
  then show ?thesis by (simp add: push_category_def category_ids_def)
next
  case (Inr i)
  note i = Inr
  show ?thesis
  proof (cases "get_prop cat ''subcat''")
    case (Inl e)
    with i show ?thesis by (simp add: push_category_def category_ids_def)
  next
    case (Inr sub)
    show ?thesis
    proof (cases "truthy sub \<and> \<not> is_array sub")
      case True
      then show ?thesis
        using i Inr
        by (cases "subcat_ids sub") (auto simp: push_category_def category_ids_def push_subcat_acc)
    next
      case False
      then show ?thesis
        using i Inr
        by (cases "mapM_res subcat_ids (as_array sub)")
           (auto simp: push_category_def category_ids_def foldM_push_subcat)
    qed
  qed
qed

lemma parse_categories_concat:
  "parse_categories v = bind_res (mapM_res category_ids (as_array v)) (\<lambda>nss. Inr (concat nss))"
  unfolding parse_categories_def
  using foldM_res_append_acc [of push_category category_ids "[]" "as_array v"]
  by (simp add: push_category_acc)

subsection \<open>Errors\<close>

text \<open>The only exception \<open>parseCategories\<close> can raise is the engine's TypeError.\<close>

lemma subcat_ids_Inl: "subcat_ids s = Inl e \<Longrightarrow> e = TypeError"
  by (auto simp: subcat_ids_def res_simps get_prop_Inl_iff)

lemma category_ids_Inl: "category_ids c = Inl e \<Longrightarrow> e = TypeError"
  by (auto simp: category_ids_def bind_res_eq_Inl get_prop_Inl_iff split: if_splits
           dest!: mapM_res_Inl_ex subcat_ids_Inl)

lemma parse_categories_Inl: "parse_categories v = Inl e \<Longrightarrow> e = TypeError"
  by (auto simp: parse_categories_concat bind_res_eq_Inl dest!: mapM_res_Inl_ex category_ids_Inl)

lemma parse_categories_single_id:
  "parse_categories (JObj [(''id'', v)]) = Inr [parse_int v]"
  by (simp add: parse_categories_def push_category_def)

lemma subcat_ids_defined: "js_defined s \<Longrightarrow> \<exists>ns. subcat_ids s = Inr ns"
  using get_prop_defined [of s "''id''"] by (auto simp: subcat_ids_def js_defined_def)

lemma mapM_res_subcat_ids_defined:
  "(\<forall>s \<in> set ss. js_defined s) \<Longrightarrow> \<exists>nss. mapM_res subcat_ids ss = Inr nss"
  by (auto intro: mapM_res_all_Inr subcat_ids_defined)

lemma category_ids_defined:
  assumes "js_defined c"
    and "\<And>sub. get_prop c ''subcat'' = Inr sub \<Longrightarrow> truthy sub \<Longrightarrow> \<forall>s \<in> set (as_array sub). js_defined s"
  shows "\<exists>ns. category_ids c = Inr ns"
proof -
  obtain i where i: "get_prop c ''id'' = Inr i"
    using assms(1) get_prop_defined by (auto simp: js_defined_def)
  obtain sub where sub: "get_prop c ''subcat'' = Inr sub"
    using assms(1) get_prop_defined by (auto simp: js_defined_def)
  show ?thesis
  proof (cases "truthy sub")
    case True
    then obtain nss where "mapM_res subcat_ids (as_array sub) = Inr nss"
      using assms(2) [OF sub] mapM_res_subcat_ids_defined by blast
    with i sub True show ?thesis by (simp add: category_ids_def)
  qed (simp add: category_ids_def i sub)
qed

subsection \<open>Refinement to the category tree\<close>

lemma enc_subcat_plain:
  "plain_attributes opts \<Longrightarrow>
     enc_subcat opts s = JObj [(''id'', JStr (string_of_int (fst s))), (''name'', JStr (snd s))]"
  by (simp add: enc_subcat_def xml_element_plain)

lemma enc_category_plain:
  "plain_attributes opts \<Longrightarrow>
     enc_category opts c =
       JObj ([(''id'', JStr (string_of_int (cat_id c))), (''name'', JStr (cat_name c))] @
             (if cat_subcats c = [] then []
              else [(''subcat'', xml_collapse (map (enc_subcat opts) (cat_subcats c)))]))"
  by (simp add: enc_category_def xml_element_plain)

lemma as_array_xml_collapse:
  "xs \<noteq> [] \<Longrightarrow> (\<And>x. x \<in> set xs \<Longrightarrow> \<not> is_array x) \<Longrightarrow> as_array (xml_collapse xs) = xs"
  by (cases xs rule: remdups_adj.cases) (auto simp: xml_collapse_def)

lemma truthy_xml_collapse_obj:
  "xs \<noteq> [] \<Longrightarrow> (\<And>x. x \<in> set xs \<Longrightarrow> \<exists>kvs. x = JObj kvs) \<Longrightarrow> truthy (xml_collapse xs)"
  by (cases xs rule: remdups_adj.cases) (auto simp: xml_collapse_def)

lemma subcat_ids_enc:
  "plain_attributes opts \<Longrightarrow> subcat_ids (enc_subcat opts s) = Inr [Num (fst s)]"
  by (simp add: subcat_ids_def enc_subcat_plain)

lemma category_ids_enc:
  assumes "plain_attributes opts"
  shows "category_ids (enc_category opts c) = Inr (Num (cat_id c) # map (Num \<circ> fst) (cat_subcats c))"
proof (cases "cat_subcats c = []")
  case True
  with assms show ?thesis by (simp add: category_ids_def enc_category_plain)
next
  case False
  let ?subs = "map (enc_subcat opts) (cat_subcats c)"
  have arr: "as_array (xml_collapse ?subs) = ?subs"
    using False assms by (intro as_array_xml_collapse) (auto simp: enc_subcat_plain)
  have tr: "truthy (xml_collapse ?subs)"
    using False assms by (intro truthy_xml_collapse_obj) (auto simp: enc_subcat_plain)
  have "mapM_res subcat_ids ?subs = Inr (map (\<lambda>s. [Num (fst s)]) (cat_subcats c))"
    using assms by (simp add: mapM_res_map subcat_ids_enc)
  with False assms arr tr show ?thesis
    by (simp add: category_ids_def enc_category_plain comp_def)
qed

lemma parse_categories_enc:
  assumes "plain_attributes opts" and "cs \<noteq> []"
  shows "parse_categories (enc_category_list opts cs) = Inr (map Num (cat_flatten cs))"
proof -
  have arr: "as_array (enc_category_list opts cs) = map (enc_category opts) cs"
    unfolding enc_category_list_def
    using assms by (intro as_array_xml_collapse) (auto simp: enc_category_plain)
  have "mapM_res category_ids (map (enc_category opts) cs) =
          Inr (map (\<lambda>c. Num (cat_id c) # map (Num \<circ> fst) (cat_subcats c)) cs)"
    using assms(1) by (simp add: mapM_res_map category_ids_enc)
  then show ?thesis
    by (simp add: parse_categories_concat arr cat_flatten_def map_concat comp_def)
qed

lemma cat_flatten_length:
  "length (cat_flatten cs) = length cs + sum_list (map (\<lambda>c. length (cat_subcats c)) cs)"
  by (induction cs) (simp_all add: cat_flatten_def)

lemma parse_categories_decimal_bound_lemma:
  assumes "s \<noteq> []" and "\<forall>c \<in> set s. dec_digit c"
  shows "\<exists>v. parse_categories (JObj [(''id'', JStr s)]) = Inr [Num v] \<and> 0 \<le> v \<and> v < 10 ^ length s"
proof -
  let ?ds = "map (\<lambda>c. of_char c - (48::nat)) s"
  have "digits_to_nat 10 ?ds < 10 ^ length ?ds"
    using assms(2) by (intro digits_to_nat_bound) (auto dest: dec_digit_lt)
  then have "int (digits_to_nat 10 ?ds) < 10 ^ length s"
    by (metis length_map of_nat_less_numeral_power_cancel_iff)
  then show ?thesis
    using assms by (simp add: parse_categories_single_id parse_int_def parse_int_str_decimal)
qed

subsection \<open>Properties of parseCategories\<close>

text \<open>
  C2. Refinement: on the deserializer's encoding of a non-empty list of categories (under
  options that keep attributes under their own names, as the program's), the code
  returns the ids of the categories flattened parent-before-children in source order,
  each parsed back to the integer it was printed from, with no sorting and no
  deduplication.
\<close>

theorem parse_categories_refines:
  assumes "plain_attributes opts" and "cs \<noteq> []"
  shows "parse_categories (enc_category_list opts cs) = Inr (map Num (cat_flatten cs))"
  using assms by (rule parse_categories_enc)

theorem parse_categories_refines_witness:
  "plain_attributes \<lparr>attributeNamePrefix = [], ignoreAttributes = False\<rparr> \<and>
   [Category 1 ''Movies'' [(10, ''Movies/Foreign''), (11, ''Movies/Other'')], Category 2 ''TV'' []] \<noteq> [] \<and>
   parse_categories (enc_category_list \<lparr>attributeNamePrefix = [], ignoreAttributes = False\<rparr>
     [Category 1 ''Movies'' [(10, ''Movies/Foreign''), (11, ''Movies/Other'')], Category 2 ''TV'' []])
   = Inr [Num 1, Num 10, Num 11, Num 2]"
proof -
  have p: "plain_attributes \<lparr>attributeNamePrefix = [], ignoreAttributes = False\<rparr>"
    by (simp add: plain_attributes_def)
  show ?thesis
    using parse_categories_refines [OF p,
        of "[Category 1 ''Movies'' [(10, ''Movies/Foreign''), (11, ''Movies/Other'')], Category 2 ''TV'' []]"]
    by (simp add: p cat_flatten_def)
qed

text \<open>
  C10. Totality: when every category node is defined and every subcategory node under a
  truthy \<open>subcat\<close> field is defined, \<open>parseCategories\<close> returns a result, whatever the
  identifiers hold: nothing in the code checks that an identifier parses.
\<close>

theorem parse_categories_total:
  assumes "\<forall>c \<in> set (as_array v). js_defined c \<and>
             (\<forall>sub. get_prop c ''subcat'' = Inr sub \<longrightarrow> truthy sub \<longrightarrow>
                     (\<forall>s \<in> set (as_array sub). js_defined s))"
  shows "\<exists>ns. parse_categories v = Inr ns"
proof -
  have "\<exists>nss. mapM_res category_ids (as_array v) = Inr nss"
    using assms by (auto intro!: mapM_res_all_Inr category_ids_defined)
  then show ?thesis by (auto simp: parse_categories_concat)
qed

theorem parse_categories_total_witness:
  "\<exists>ns. parse_categories (JObj [(''id'', JStr ''abc'')]) = Inr ns"
proof -
  have h: "\<forall>c \<in> set (as_array (JObj [(''id'', JStr ''abc'')])). js_defined c \<and>
      (\<forall>sub. get_prop c ''subcat'' = Inr sub \<longrightarrow> truthy sub \<longrightarrow>
              (\<forall>s \<in> set (as_array sub). js_defined s))"
    by (simp add: js_defined_def)
  show ?thesis by (rule parse_categories_total [OF h])
qed

text \<open>
  C3. Equivalence: the accumulator loop of the code computes the concatenation, in
  order, of the ids each category contributes (its own id, then the ids of its
  subcategories when \<open>subcat\<close> is truthy, single object or array alike), and fails
  exactly when one of these fails, with the first failure.
\<close>

theorem parse_categories_reference:
  "parse_categories v = bind_res (mapM_res category_ids (as_array v)) (\<lambda>nss. Inr (concat nss))"
  by (rule parse_categories_concat)

text \<open>
  C11. Coercion to a sequence: a value that is not an array is treated exactly as the
  one-element array holding it.
\<close>

theorem parse_categories_coerce:
  assumes "\<not> is_array v"
  shows "parse_categories v = parse_categories (JArr [v])"
  using assms by (simp add: parse_categories_def)

theorem parse_categories_coerce_witness:
  "parse_categories (JObj [(''id'', JStr ''7'')]) = parse_categories (JArr [JObj [(''id'', JStr ''7'')]])"
  by (rule parse_categories_coerce) simp

text \<open>
  C17. Whatever surrounds a decimal identifier is silently accepted: leading whitespace
  is skipped and anything after the number that cannot extend it is dropped, so
  \<open>" 12abc"\<close> is pushed as \<open>12\<close>.
\<close>

theorem parse_categories_numeric_prefix:
  assumes "\<forall>c \<in> set ws. js_whitespace c" and "number_end rest"
  shows "parse_categories (JObj [(''id'', JStr (ws @ string_of_int i @ rest))]) = Inr [Num i]"
  using assms by (simp add: parse_categories_def push_category_def parse_int_def parse_int_str_prefix)

theorem parse_categories_numeric_prefix_witness:
  "parse_categories (JObj [(''id'', JStr ('' '' @ string_of_int 12 @ ''abc''))]) = Inr [Num 12]"
proof -
  have ws: "\<forall>c \<in> set '' ''. js_whitespace c" by (simp add: js_whitespace_def)
  have r: "number_end ''abc''" by (simp add: number_end_def digit_value_def)
  show ?thesis by (rule parse_categories_numeric_prefix [OF ws r])
qed

text \<open>
  C23. Bounds: a category identifier made of \<open>n\<close> decimal digits (leading zeros
  allowed) is pushed as an integer between \<open>0\<close> and \<open>10^n - 1\<close>.
\<close>

theorem parse_categories_decimal_bound:
  assumes "s \<noteq> []" and "\<forall>c \<in> set s. dec_digit c"
  shows "\<exists>v. parse_categories (JObj [(''id'', JStr s)]) = Inr [Num v] \<and> 0 \<le> v \<and> v < 10 ^ length s"
  using assms by (rule parse_categories_decimal_bound_lemma)

theorem parse_categories_decimal_bound_witness:
  "\<exists>v. parse_categories (JObj [(''id'', JStr ''0042'')]) = Inr [Num v] \<and> 0 \<le> v \<and> v < 10 ^ length ''0042''"
proof -
  have "''0042'' \<noteq> []" and "\<forall>c \<in> set ''0042''. dec_digit c"
    by (simp_all add: dec_digit_def)
  then show ?thesis by (rule parse_categories_decimal_bound)
qed

end
