(* ===== verification/Jackett.thy ===== *)
theory Jackett
  imports Categories
begin

text \<open>
  The class \<open>Jackett\<close> of src/src/jackett.ts: its fields as a record, the constructor
  (\<open>jackett_init\<close>, lines 18--26), the Indexer Normalizer's entry mapping
  (\<open>map_to_indexer\<close>, lines 67--81), the Response Validator (\<open>validate_response\<close>,
  lines 33--37) and \<open>get\<close> (lines 28--40), split into the part after deserialization
  (\<open>get_parsed\<close>) and the whole operation (\<open>jackett_get\<close>), which takes the HTTP client
  and the XML parser as parameters: they are external collaborators, and every lemma
  about \<open>jackett_get\<close> holds for any of them.

  The \<open>Indexer\<close> class (src/models/indexer.ts) is not part of the sources; its
  constructor is modelled, from the spec, as a record of the eight arguments the code
  passes. Configuration values are whatever \<open>Config.jackett\<close> holds, so they are
  JavaScript values (an unset alternate URL is \<open>undefined\<close>).

  The lemmas refine \<open>mapToIndexer\<close> and \<open>get\<close> to the abstract catalog, classify
  the errors of \<open>get\<close>, and characterize when it succeeds.
\<close>

subsection \<open>State\<close>

record indexer =
  ix_id :: jsval
  ix_priority :: int
  ix_name :: jsval
  ix_protocol :: string
  ix_categories :: "jsnum list"
  ix_reserved :: int
  ix_url :: string
  ix_api_key :: jsval

record jackett =
  url :: jsval
  apiKey :: jsval
  altUrl :: jsval
  requestUrl :: string
  parseOpts :: parse_options

definition jackett_parse_opts :: parse_options where
  "jackett_parse_opts = \<lparr>attributeNamePrefix = [], ignoreAttributes = False\<rparr>"

subsection \<open>Constructor\<close>

definition request_url :: "jsval \<Rightarrow> jsval \<Rightarrow> string" where
  "request_url u k =
     to_js_string u @ ''/api/v2.0/indexers/all/results/torznab/api?apikey='' @ to_js_string k @
     ''&t=indexers&configured=true''"

definition jackett_init :: "jsval \<Rightarrow> jackett js_result" where
  "jackett_init c =
     bind_res (get_prop c ''url'') (\<lambda>u.
     bind_res (get_prop c ''altUrl'') (\<lambda>a.
     bind_res (get_prop c ''apiKey'') (\<lambda>k.
       Inr \<lparr>url = u, apiKey = k, altUrl = a, requestUrl = request_url u k,
            parseOpts = jackett_parse_opts\<rparr>)))"

subsection \<open>Entry mapping\<close>

definition indexer_url :: "jackett \<Rightarrow> jsval \<Rightarrow> string" where
  "indexer_url j eid =
     to_js_string (js_or (altUrl j) (url j)) @ ''/api/v2.0/indexers/'' @ to_js_string eid @
     ''/results/torznab/''"

definition map_to_indexer :: "jackett \<Rightarrow> jsval \<Rightarrow> indexer js_result" where
  "map_to_indexer j entry =
     bind_res (get_prop entry ''caps'') (\<lambda>caps.
     bind_res (get_prop caps ''categories'') (\<lambda>cats.
     bind_res (get_prop cats ''category'') (\<lambda>category.
     bind_res (parse_categories category) (\<lambda>categories.
     bind_res (get_prop entry ''id'') (\<lambda>eid.
     bind_res (get_prop entry ''title'') (\<lambda>title.
       Inr \<lparr>ix_id = eid, ix_priority = 0, ix_name = title, ix_protocol = ''torrent'',
            ix_categories = categories, ix_reserved = 0, ix_url = indexer_url j eid,
            ix_api_key = apiKey j\<rparr>))))))"

subsection \<open>Response validation and get\<close>

definition validate_response :: "jsval \<Rightarrow> jsval js_result" where
  "validate_response parsed =
     bind_res (get_prop parsed ''error'') (\<lambda>err.
       if truthy err
       then bind_res (get_prop err ''description'') (\<lambda>d. Inl (Error (''Jackett: '' @ to_js_string d)))
       else bind_res (get_prop parsed ''indexers'') (\<lambda>ixs. get_prop ixs ''indexer''))"

definition get_parsed :: "jackett \<Rightarrow> jsval \<Rightarrow> indexer list js_result" where
  "get_parsed j parsed = bind_res (validate_response parsed) (array_map (map_to_indexer j))"

type_synonym http_get = "string \<Rightarrow> string js_result"
type_synonym xml_parser = "string \<Rightarrow> parse_options \<Rightarrow> jsval js_result"

definition jackett_get :: "http_get \<Rightarrow> xml_parser \<Rightarrow> jackett \<Rightarrow> indexer list js_result" where
  "jackett_get http parse j =
     bind_res (http (requestUrl j)) (\<lambda>data.
     bind_res (parse data (parseOpts j)) (\<lambda>parsedXML.
       get_parsed j parsedXML))"

subsection \<open>The abstract catalog\<close>

text \<open>
  The data of spec section 3 as the deserializer encodes it: an indexer entry has an
  \<open>id\<close> attribute, a \<open>title\<close> child (whatever value the deserializer gave its text)
  and a \<open>caps\<close> child holding \<open>categories\<close>, holding one \<open>category\<close> child per
  category; the response holds \<open>indexers\<close> with one \<open>indexer\<close> child per entry, or an
  \<open>error\<close> element with a \<open>description\<close> attribute. The normalized record is what
  spec section 4.2 says the entry maps to.
\<close>

record entry_spec =
  e_id :: string
  e_title :: jsval
  e_cats :: "category list"

definition enc_entry :: "parse_options \<Rightarrow> entry_spec \<Rightarrow> jsval" where
  "enc_entry opts e =
     xml_element opts [(''id'', e_id e), (''configured'', ''true'')]
       [(''title'', [e_title e]),
        (''caps'', [xml_element opts []
           [(''categories'', [xml_element opts [] [(''category'', map (enc_category opts) (e_cats e))]])]])]"

definition enc_response :: "parse_options \<Rightarrow> entry_spec list \<Rightarrow> jsval" where
  "enc_response opts es =
     xml_element opts [] [(''indexers'', [xml_element opts [] [(''indexer'', map (enc_entry opts) es)]])]"

definition enc_error :: "parse_options \<Rightarrow> string \<Rightarrow> string \<Rightarrow> jsval" where
  "enc_error opts code msg =
     xml_element opts [] [(''error'', [xml_element opts [(''code'', code), (''description'', msg)] []])]"

definition normalize_entry :: "jackett \<Rightarrow> entry_spec \<Rightarrow> indexer" where
  "normalize_entry j e =
     \<lparr>ix_id = JStr (e_id e), ix_priority = 0, ix_name = e_title e, ix_protocol = ''torrent'',
      ix_categories = map Num (cat_flatten (e_cats e)), ix_reserved = 0,
      ix_url = indexer_url j (JStr (e_id e)), ix_api_key = apiKey j\<rparr>"

lemma xml_element_children_only:
  "xml_element opts [] [(t, [v])] = JObj [(t, v)]"
  by (simp add: xml_element_def)

lemma xml_element_no_children:
  "xml_element opts [] [(t, [])] = JStr []"
  by (simp add: xml_element_def)

lemma xml_element_children_many:
  "vs \<noteq> [] \<Longrightarrow> xml_element opts [] [(t, vs)] = JObj [(t, xml_collapse vs)]"
  by (simp add: xml_element_def)

lemma enc_entry_plain:
  "plain_attributes opts \<Longrightarrow>
     enc_entry opts e =
       JObj [(''id'', JStr (e_id e)), (''configured'', JStr ''true''), (''title'', e_title e),
             (''caps'', JObj [(''categories'',
                if e_cats e = [] then JStr []
                else JObj [(''category'', enc_category_list opts (e_cats e))])])]"
  by (simp add: enc_entry_def xml_element_plain xml_element_children_only
      xml_element_no_children xml_element_children_many enc_category_list_def)

lemma enc_response_indexer:
  "es \<noteq> [] \<Longrightarrow>
     enc_response opts es = JObj [(''indexers'', JObj [(''indexer'', xml_collapse (map (enc_entry opts) es))])]"
  by (simp add: enc_response_def xml_element_children_only xml_element_children_many)

lemma enc_response_Nil: "enc_response opts [] = JObj [(''indexers'', JStr [])]"
  by (simp add: enc_response_def xml_element_children_only xml_element_no_children)

lemma map_to_indexer_enc:
  assumes "plain_attributes opts" and "e_cats e \<noteq> []"
  shows "map_to_indexer j (enc_entry opts e) = Inr (normalize_entry j e)"
  using assms
  by (simp add: map_to_indexer_def enc_entry_plain parse_categories_enc normalize_entry_def)

lemma map_to_indexer_no_categories:
  "plain_attributes opts \<Longrightarrow> e_cats e = [] \<Longrightarrow> map_to_indexer j (enc_entry opts e) = Inl TypeError"
  by (simp add: map_to_indexer_def enc_entry_plain parse_categories_def push_category_def)

lemma validate_response_enc:
  "2 \<le> length es \<Longrightarrow> validate_response (enc_response opts es) = Inr (JArr (map (enc_entry opts) es))"
proof -
  assume len: "2 \<le> length es"
  then have "es \<noteq> []" by auto
  with len show ?thesis
    by (simp add: validate_response_def enc_response_indexer xml_collapse_many)
qed

lemma get_parsed_enc:
  assumes "plain_attributes opts" and "2 \<le> length es" and "\<forall>e \<in> set es. e_cats e \<noteq> []"
  shows "get_parsed j (enc_response opts es) = Inr (map (normalize_entry j) es)"
proof -
  have "mapM_res (map_to_indexer j) (map (enc_entry opts) es) = Inr (map (normalize_entry j) es)"
    using assms(1,3) by (simp add: mapM_res_map mapM_res_map_Inr map_to_indexer_enc)
  then show ?thesis
    using assms(2) by (simp add: get_parsed_def validate_response_enc)
qed

lemma map_to_indexer_fields:
  assumes "map_to_indexer j entry = Inr ix"
  shows "ix_priority ix = 0 \<and> ix_reserved ix = 0 \<and> ix_protocol ix = ''torrent'' \<and>
         ix_api_key ix = apiKey j \<and> get_prop entry ''id'' = Inr (ix_id ix) \<and>
         get_prop entry ''title'' = Inr (ix_name ix) \<and> ix_url ix = indexer_url j (ix_id ix)"
  using assms by (auto simp: map_to_indexer_def res_simps)

lemma map_to_indexer_Inl: "map_to_indexer j e = Inl err \<Longrightarrow> err = TypeError"
  by (auto simp: map_to_indexer_def bind_res_eq_Inl get_prop_Inl_iff dest: parse_categories_Inl)

lemma validate_response_Inl:
  "validate_response parsed = Inl err \<Longrightarrow> err = TypeError \<or> (\<exists>d. err = Error (''Jackett: '' @ to_js_string d))"
  by (auto simp: validate_response_def bind_res_eq_Inl get_prop_Inl_iff split: if_splits)

lemma get_parsed_Inr:
  "get_parsed j parsed = Inr ixs \<longleftrightarrow>
     (\<exists>es. validate_response parsed = Inr (JArr es) \<and>
           list_all2 (\<lambda>e ix. map_to_indexer j e = Inr ix) es ixs)"
proof -
  have "array_map (map_to_indexer j) v = Inr ixs \<longleftrightarrow>
          (\<exists>es. v = JArr es \<and> list_all2 (\<lambda>e ix. map_to_indexer j e = Inr ix) es ixs)" for v
    by (cases v) (auto simp: mapM_res_Inr_iff)
  then show ?thesis by (auto simp: get_parsed_def res_simps)
qed

lemma jackett_init_Inr:
  "jackett_init c = Inr j \<longleftrightarrow>
     (\<exists>u a k. get_prop c ''url'' = Inr u \<and> get_prop c ''altUrl'' = Inr a \<and>
              get_prop c ''apiKey'' = Inr k \<and>
              j = \<lparr>url = u, apiKey = k, altUrl = a, requestUrl = request_url u k,
                   parseOpts = jackett_parse_opts\<rparr>)"
  by (auto simp: jackett_init_def res_simps)

lemma plain_jackett_parse_opts [simp]: "plain_attributes jackett_parse_opts"
  by (simp add: plain_attributes_def jackett_parse_opts_def)

lemma jackett_init_parseOpts: "jackett_init c = Inr j \<Longrightarrow> parseOpts j = jackett_parse_opts"
  by (auto simp: jackett_init_Inr)

lemma get_parsed_enc_error:
  "plain_attributes opts \<Longrightarrow>
     get_parsed j (enc_error opts code msg) = Inl (Error (''Jackett: '' @ msg))"
  by (simp add: get_parsed_def validate_response_def enc_error_def xml_element_plain
      xml_element_children_only)

subsection \<open>Properties of the entry mapping and of get\<close>

text \<open>
  C4. Refinement of \<open>mapToIndexer\<close>: an encoded entry with at least one category maps to
  the normalized record of spec section 4.2: id and title copied, priority and the
  reserved field 0, protocol \<open>torrent\<close>, the flattened categories, the per-indexer
  endpoint and the shared API key.
\<close>

theorem map_to_indexer_refines:
  assumes "plain_attributes opts" and "e_cats e \<noteq> []"
  shows "map_to_indexer j (enc_entry opts e) = Inr (normalize_entry j e)"
  using assms by (rule map_to_indexer_enc)

theorem map_to_indexer_refines_witness:
  "map_to_indexer
     \<lparr>url = JStr ''http://h'', apiKey = JStr ''K'', altUrl = JUndef, requestUrl = [],
      parseOpts = jackett_parse_opts\<rparr>
     (enc_entry jackett_parse_opts \<lparr>e_id = ''5'', e_title = JStr ''Five'', e_cats = [Category 2000 ''Movies'' []]\<rparr>) =
   Inr \<lparr>ix_id = JStr ''5'', ix_priority = 0, ix_name = JStr ''Five'', ix_protocol = ''torrent'',
        ix_categories = [Num 2000], ix_reserved = 0,
        ix_url = ''http://h/api/v2.0/indexers/5/results/torznab/'', ix_api_key = JStr ''K''\<rparr>"
proof -
  have p: "plain_attributes jackett_parse_opts"
    by (simp add: plain_attributes_def jackett_parse_opts_def)
  show ?thesis
    using map_to_indexer_refines [OF p, of "\<lparr>e_id = ''5'', e_title = JStr ''Five'', e_cats = [Category 2000 ''Movies'' []]\<rparr>"]
    by (simp add: normalize_entry_def cat_flatten_def indexer_url_def)
qed

text \<open>
  C5. Response Validator: when the document's \<open>error\<close> field is truthy, \<open>get\<close> fails
  with an \<open>Error\<close> whose message is \<open>Jackett: \<close> followed by the service's
  description, and no indexer is read.
\<close>

theorem get_parsed_service_error:
  assumes "get_prop parsed ''error'' = Inr err" and "truthy err"
    and "get_prop err ''description'' = Inr d"
  shows "get_parsed j parsed = Inl (Error (''Jackett: '' @ to_js_string d))"
  using assms by (simp add: get_parsed_def validate_response_def)

theorem get_parsed_service_error_witness:
  "get_parsed (\<lparr>url = JStr ''http://h'', apiKey = JStr ''K'', altUrl = JUndef, requestUrl = [], parseOpts = jackett_parse_opts\<rparr>) (enc_error jackett_parse_opts ''100'' ''Invalid API Key'') =
     Inl (Error ''Jackett: Invalid API Key'')"
proof -
  have doc: "enc_error jackett_parse_opts ''100'' ''Invalid API Key'' =
      JObj [(''error'', JObj [(''code'', JStr ''100''), (''description'', JStr ''Invalid API Key'')])]"
    by (simp add: enc_error_def xml_element_def jackett_parse_opts_def)
  show ?thesis
    using get_parsed_service_error [of "enc_error jackett_parse_opts ''100'' ''Invalid API Key''"
        "JObj [(''code'', JStr ''100''), (''description'', JStr ''Invalid API Key'')]"
        "JStr ''Invalid API Key''" "\<lparr>url = JStr ''http://h'', apiKey = JStr ''K'', altUrl = JUndef, requestUrl = [], parseOpts = jackett_parse_opts\<rparr>"]
    by (simp add: doc)
qed

text \<open>
  C6. Endpoint: with string-valued configuration, the endpoint of an indexer is the
  alternate URL when it is non-empty and the base URL otherwise, followed by
  \<open>/api/v2.0/indexers/<id>/results/torznab/\<close>.
\<close>

theorem indexer_url_alt_or_base:
  assumes "url j = JStr u" and "altUrl j = JStr a"
  shows "indexer_url j (JStr i) =
           (if a = [] then u else a) @ ''/api/v2.0/indexers/'' @ i @ ''/results/torznab/''"
  using assms by (simp add: indexer_url_def js_or_def)

theorem indexer_url_alt_or_base_witness:
  "indexer_url \<lparr>url = JStr ''http://h'', apiKey = JStr ''K'', altUrl = JStr ''http://alt'',
                requestUrl = [], parseOpts = jackett_parse_opts\<rparr> (JStr ''5'') =
     ''http://alt/api/v2.0/indexers/5/results/torznab/''"
  using indexer_url_alt_or_base [of "\<lparr>url = JStr ''http://h'', apiKey = JStr ''K'',
      altUrl = JStr ''http://alt'', requestUrl = [], parseOpts = jackett_parse_opts\<rparr>"
      "''http://h''" "''http://alt''" "''5''"]
  by simp

text \<open>
  C7. With zero or one configured indexer, \<open>get\<close> throws a TypeError: the
  deserializer gives the empty string or a bare object for \<open>indexers.indexer\<close>, and
  the code calls \<open>.map\<close> on it without the single-versus-list normalization that spec
  section 4.1 requires (and that spec section 8 expects to give an empty sequence for
  zero indexers).
\<close>

theorem get_parsed_fewer_than_two:
  assumes "plain_attributes opts" and "length es < 2"
  shows "get_parsed j (enc_response opts es) = Inl TypeError"
proof (cases es)
  case Nil
  then show ?thesis by (simp add: get_parsed_def validate_response_def enc_response_Nil)
next
  case (Cons e es')
  with assms(2) have "es = [e]" by simp
  with assms(1) show ?thesis
    by (simp add: get_parsed_def validate_response_def enc_response_indexer enc_entry_plain)
qed

theorem get_parsed_fewer_than_two_witness:
  "get_parsed (\<lparr>url = JStr ''http://h'', apiKey = JStr ''K'', altUrl = JUndef, requestUrl = [], parseOpts = jackett_parse_opts\<rparr>) (enc_response jackett_parse_opts
     [\<lparr>e_id = ''5'', e_title = JStr ''Five'', e_cats = [Category 2000 ''Movies'' []]\<rparr>]) = Inl TypeError"
proof -
  have p: "plain_attributes jackett_parse_opts"
    by (simp add: plain_attributes_def jackett_parse_opts_def)
  show ?thesis by (rule get_parsed_fewer_than_two [OF p]) simp
qed

text \<open>
  C8. All or nothing: if the mapping of any entry of the indexer array throws, \<open>get\<close>
  throws and returns no partial list.
\<close>

theorem get_parsed_all_or_nothing:
  assumes "validate_response parsed = Inr (JArr es)" and "e \<in> set es"
    and "map_to_indexer j e = Inl err"
  shows "\<exists>err'. get_parsed j parsed = Inl err'"
  using assms mapM_res_Inl_intro [of e es "map_to_indexer j" err] by (auto simp: get_parsed_def)

theorem get_parsed_all_or_nothing_witness:
  "\<exists>err'. get_parsed (\<lparr>url = JStr ''http://h'', apiKey = JStr ''K'', altUrl = JUndef, requestUrl = [], parseOpts = jackett_parse_opts\<rparr>) (JObj [(''indexers'', JObj [(''indexer'', JArr [JObj [], JNull])])]) = Inl err'"
proof -
  have v: "validate_response (JObj [(''indexers'', JObj [(''indexer'', JArr [JObj [], JNull])])]) =
             Inr (JArr [JObj [], JNull])"
    by (simp add: validate_response_def)
  have m: "map_to_indexer (\<lparr>url = JStr ''http://h'', apiKey = JStr ''K'', altUrl = JUndef, requestUrl = [], parseOpts = jackett_parse_opts\<rparr>) JNull = Inl TypeError"
    by (simp add: map_to_indexer_def)
  show ?thesis by (rule get_parsed_all_or_nothing [OF v _ m]) simp
qed

text \<open>
  C9. Order and count: a successful \<open>get\<close> returns one record per entry of the indexer
  array, the \<open>i\<close>-th record being the mapping of the \<open>i\<close>-th entry.
\<close>

theorem get_parsed_order:
  assumes "get_parsed j parsed = Inr ixs"
  shows "\<exists>es. validate_response parsed = Inr (JArr es) \<and> length ixs = length es \<and>
              (\<forall>i < length es. map_to_indexer j (es ! i) = Inr (ixs ! i))"
  using assms by (auto simp: get_parsed_Inr list_all2_conv_all_nth)

theorem get_parsed_order_witness:
  "\<exists>es. validate_response (JObj [(''indexers'', JObj [(''indexer'', JArr [])])]) = Inr (JArr es) \<and>
        length ([] :: indexer list) = length es \<and>
        (\<forall>i < length es. map_to_indexer (\<lparr>url = JStr ''http://h'', apiKey = JStr ''K'', altUrl = JUndef, requestUrl = [], parseOpts = jackett_parse_opts\<rparr>) (es ! i) = Inr (([] :: indexer list) ! i))"
proof -
  have "get_parsed (\<lparr>url = JStr ''http://h'', apiKey = JStr ''K'', altUrl = JUndef, requestUrl = [], parseOpts = jackett_parse_opts\<rparr>) (JObj [(''indexers'', JObj [(''indexer'', JArr [])])]) = Inr []"
    by (simp add: get_parsed_def validate_response_def)
  then show ?thesis by (rule get_parsed_order)
qed

text \<open>
  C12. Constructor: from a configuration object with string \<open>url\<close> and \<open>apiKey\<close>, the
  constructor keeps the three values and builds the discovery URL of spec section 6.
\<close>

theorem jackett_init_config:
  "jackett_init (JObj [(''url'', JStr u), (''altUrl'', a), (''apiKey'', JStr k)]) =
     Inr \<lparr>url = JStr u, apiKey = JStr k, altUrl = a,
          requestUrl = u @ ''/api/v2.0/indexers/all/results/torznab/api?apikey='' @ k @
                       ''&t=indexers&configured=true'',
          parseOpts = jackett_parse_opts\<rparr>"
  by (simp add: jackett_init_def request_url_def)

text \<open>
  C13. The constructor fails exactly when \<open>Config.jackett\<close> is \<open>undefined\<close> or
  \<open>null\<close>, with a TypeError; missing fields become \<open>undefined\<close> silently.
\<close>

theorem jackett_init_error:
  "jackett_init c = Inl e \<longleftrightarrow> (c = JUndef \<or> c = JNull) \<and> e = TypeError"
  by (cases c) (auto simp: jackett_init_def)

theorem jackett_init_error_witness:
  "jackett_init JUndef = Inl TypeError \<and> jackett_init (JObj []) \<noteq> Inl TypeError"
  using jackett_init_error [of JUndef TypeError] jackett_init_error [of "JObj []" TypeError] by simp

text \<open>
  C14. Every record \<open>get\<close> returns has priority 0, reserved field 0, protocol
  \<open>torrent\<close>, the shared API key, and the endpoint built from its own id.
\<close>

theorem get_parsed_fixed_fields:
  assumes "get_parsed j parsed = Inr ixs" and "ix \<in> set ixs"
  shows "ix_priority ix = 0 \<and> ix_reserved ix = 0 \<and> ix_protocol ix = ''torrent'' \<and>
         ix_api_key ix = apiKey j \<and> ix_url ix = indexer_url j (ix_id ix)"
proof -
  obtain es where "list_all2 (\<lambda>e ix. map_to_indexer j e = Inr ix) es ixs"
    using assms(1) by (auto simp: get_parsed_Inr)
  then obtain e where "map_to_indexer j e = Inr ix"
    using assms(2) by (auto simp: list_all2_conv_all_nth in_set_conv_nth)
  then show ?thesis by (auto dest: map_to_indexer_fields)
qed

theorem get_parsed_fixed_fields_witness:
  "\<exists>ixs. get_parsed \<lparr>url = JStr ''http://h'', apiKey = JStr ''K'', altUrl = JStr ''http://alt'',
                      requestUrl = [], parseOpts = jackett_parse_opts\<rparr>
          (JObj [(''indexers'', JObj [(''indexer'', JArr
            [JObj [(''id'', JStr ''a''), (''title'', JStr ''A''),
                   (''caps'', JObj [(''categories'', JObj [(''category'', JObj [(''id'', JStr ''1'')])])])],
             JObj [(''id'', JStr ''b''), (''title'', JNum (Num 7)),
                   (''caps'', JObj [(''categories'', JObj [(''category'', JArr [])])])]])])]) = Inr ixs \<and>
        ix_priority (ixs ! 1) = 0 \<and> ix_reserved (ixs ! 1) = 0 \<and> ix_protocol (ixs ! 1) = ''torrent'' \<and>
        ix_api_key (ixs ! 1) = JStr ''K'' \<and>
        ix_url (ixs ! 1) = indexer_url \<lparr>url = JStr ''http://h'', apiKey = JStr ''K'', altUrl = JStr ''http://alt'',
                      requestUrl = [], parseOpts = jackett_parse_opts\<rparr> (ix_id (ixs ! 1))"
proof -
  let ?j = "\<lparr>url = JStr ''http://h'', apiKey = JStr ''K'', altUrl = JStr ''http://alt'',
             requestUrl = [], parseOpts = jackett_parse_opts\<rparr>"
  let ?p = "JObj [(''indexers'', JObj [(''indexer'', JArr
            [JObj [(''id'', JStr ''a''), (''title'', JStr ''A''),
                   (''caps'', JObj [(''categories'', JObj [(''category'', JObj [(''id'', JStr ''1'')])])])],
             JObj [(''id'', JStr ''b''), (''title'', JNum (Num 7)),
                   (''caps'', JObj [(''categories'', JObj [(''category'', JArr [])])])]])])]"
  have "\<exists>ixs. get_parsed ?j ?p = Inr ixs"
    by (simp add: get_parsed_def validate_response_def map_to_indexer_def parse_categories_def
        push_category_def)
  then obtain ixs where g: "get_parsed ?j ?p = Inr ixs" by blast
  then have "length ixs = 2"
    by (auto simp: get_parsed_Inr validate_response_def dest: list_all2_lengthD)
  then have "ixs ! 1 \<in> set ixs" by simp
  with get_parsed_fixed_fields [OF g] g show ?thesis by auto
qed

text \<open>
  C15. An indexer whose \<open>categories\<close> element is empty makes its mapping throw a
  TypeError (\<open>"".category\<close> is \<open>undefined\<close> and \<open>parseCategories\<close> reads its
  \<open>id\<close>), and with it the whole of \<open>get\<close>: spec section 3 does not say what an
  indexer without categories maps to.
\<close>

theorem map_to_indexer_no_categories_fails:
  assumes "plain_attributes opts" and "e_cats e = []"
  shows "map_to_indexer j (enc_entry opts e) = Inl TypeError"
  using assms by (rule map_to_indexer_no_categories)

theorem map_to_indexer_no_categories_fails_witness:
  "map_to_indexer (\<lparr>url = JStr ''http://h'', apiKey = JStr ''K'', altUrl = JUndef, requestUrl = [], parseOpts = jackett_parse_opts\<rparr>) (enc_entry jackett_parse_opts \<lparr>e_id = ''x'', e_title = JStr ''X'', e_cats = []\<rparr>) =
     Inl TypeError"
proof -
  have p: "plain_attributes jackett_parse_opts"
    by (simp add: plain_attributes_def jackett_parse_opts_def)
  show ?thesis by (rule map_to_indexer_no_categories_fails [OF p]) simp
qed

text \<open>
  C18. On any parsed document, \<open>get\<close> succeeds exactly when the \<open>error\<close> field is
  falsy, \<open>indexers.indexer\<close> is an array, and every entry of it maps; there is no
  other way for it to return.
\<close>

theorem get_parsed_succeeds_iff:
  "(\<exists>ixs. get_parsed j parsed = Inr ixs) \<longleftrightarrow>
     (\<exists>err ixv es. get_prop parsed ''error'' = Inr err \<and> \<not> truthy err \<and>
        get_prop parsed ''indexers'' = Inr ixv \<and> get_prop ixv ''indexer'' = Inr (JArr es) \<and>
        (\<forall>e \<in> set es. \<exists>ix. map_to_indexer j e = Inr ix))"
proof -
  have "(\<exists>ixs. get_parsed j parsed = Inr ixs) \<longleftrightarrow>
          (\<exists>es. validate_response parsed = Inr (JArr es) \<and> (\<exists>ixs. mapM_res (map_to_indexer j) es = Inr ixs))"
    by (auto simp: get_parsed_Inr mapM_res_Inr_iff)
  also have "\<dots> \<longleftrightarrow> (\<exists>err ixv es. get_prop parsed ''error'' = Inr err \<and> \<not> truthy err \<and>
        get_prop parsed ''indexers'' = Inr ixv \<and> get_prop ixv ''indexer'' = Inr (JArr es) \<and>
        (\<forall>e \<in> set es. \<exists>ix. map_to_indexer j e = Inr ix))"
    by (auto simp: validate_response_def res_simps mapM_res_succeeds_iff split: if_splits)
  finally show ?thesis .
qed

theorem get_parsed_succeeds_iff_witness:
  "\<exists>ixs. get_parsed \<lparr>url = JStr ''http://h'', apiKey = JStr ''K'', altUrl = JUndef, requestUrl = [],
                      parseOpts = jackett_parse_opts\<rparr>
           (JObj [(''error'', JStr []), (''indexers'', JObj [(''indexer'', JArr [])])]) = Inr ixs"
  by (rule get_parsed_succeeds_iff [THEN iffD2]) simp

text \<open>
  C19. \<open>mapToIndexer\<close> succeeds exactly when \<open>entry.caps.categories.category\<close> can be
  read and \<open>parseCategories\<close> succeeds on it; reading \<open>id\<close> and \<open>title\<close> then
  cannot fail.
\<close>

theorem map_to_indexer_succeeds_iff:
  "(\<exists>ix. map_to_indexer j entry = Inr ix) \<longleftrightarrow>
     (\<exists>caps cats category ns. get_prop entry ''caps'' = Inr caps \<and>
        get_prop caps ''categories'' = Inr cats \<and> get_prop cats ''category'' = Inr category \<and>
        parse_categories category = Inr ns)"
proof
  assume "\<exists>ix. map_to_indexer j entry = Inr ix"
  then show "\<exists>caps cats category ns. get_prop entry ''caps'' = Inr caps \<and>
        get_prop caps ''categories'' = Inr cats \<and> get_prop cats ''category'' = Inr category \<and>
        parse_categories category = Inr ns"
    by (auto simp: map_to_indexer_def bind_res_eq_Inr)
next
  assume "\<exists>caps cats category ns. get_prop entry ''caps'' = Inr caps \<and>
        get_prop caps ''categories'' = Inr cats \<and> get_prop cats ''category'' = Inr category \<and>
        parse_categories category = Inr ns"
  then obtain caps cats category ns where c: "get_prop entry ''caps'' = Inr caps"
    and "get_prop caps ''categories'' = Inr cats" and "get_prop cats ''category'' = Inr category"
    and "parse_categories category = Inr ns"
    by blast
  moreover have "entry \<noteq> JUndef \<and> entry \<noteq> JNull"
    using c by auto
  then obtain eid title where "get_prop entry ''id'' = Inr eid" and "get_prop entry ''title'' = Inr title"
    using get_prop_defined by meson
  ultimately show "\<exists>ix. map_to_indexer j entry = Inr ix"
    by (simp add: map_to_indexer_def)
qed

theorem map_to_indexer_succeeds_iff_witness:
  "\<exists>ix. map_to_indexer \<lparr>url = JStr ''http://h'', apiKey = JStr ''K'', altUrl = JUndef, requestUrl = [],
                       parseOpts = jackett_parse_opts\<rparr>
         (JObj [(''caps'', JObj [(''categories'', JObj [(''category'', JObj [(''id'', JStr ''x'')])])])]) = Inr ix"
proof -
  have "parse_categories (JObj [(''id'', JStr ''x'')]) = Inr [NaN]"
    by (simp add: parse_categories_def push_category_def js_eval)
  then show ?thesis by (intro map_to_indexer_succeeds_iff [THEN iffD2]) simp
qed

text \<open>
  C21. A configuration without an API key is accepted: the key is \<open>undefined\<close> and
  the discovery URL carries the text \<open>apikey=undefined\<close>.
\<close>

theorem jackett_init_missing_api_key:
  "\<exists>j. jackett_init (JObj [(''url'', JStr u)]) = Inr j \<and> apiKey j = JUndef \<and>
       requestUrl j = u @ ''/api/v2.0/indexers/all/results/torznab/api?apikey=undefined&t=indexers&configured=true''"
  by (simp add: jackett_init_def request_url_def)

text \<open>
  C22. Error classification: once the document is parsed, \<open>get\<close> can only throw the
  engine's TypeError or the service error, whose message always starts with
  \<open>Jackett: \<close>; no entry can produce any other error.
\<close>

theorem get_parsed_error_kinds:
  assumes "get_parsed j parsed = Inl err"
  shows "err = TypeError \<or> (\<exists>msg. err = Error (''Jackett: '' @ msg))"
proof -
  have "validate_response parsed = Inl err \<or>
        (\<exists>v. validate_response parsed = Inr v \<and> array_map (map_to_indexer j) v = Inl err)"
    using assms by (simp add: get_parsed_def bind_res_eq_Inl)
  then show ?thesis
  proof
    assume "validate_response parsed = Inl err"
    then show ?thesis by (auto dest: validate_response_Inl)
  next
    assume "\<exists>v. validate_response parsed = Inr v \<and> array_map (map_to_indexer j) v = Inl err"
    then obtain v where "array_map (map_to_indexer j) v = Inl err" by blast
    then have "err = TypeError"
      by (cases v) (auto dest!: mapM_res_Inl_ex map_to_indexer_Inl)
    then show ?thesis ..
  qed
qed

theorem get_parsed_error_kinds_witness:
  "get_parsed \<lparr>url = JStr ''http://h'', apiKey = JStr ''K'', altUrl = JUndef, requestUrl = [],
               parseOpts = jackett_parse_opts\<rparr> (JObj [(''error'', JStr ''down'')]) =
     Inl (Error ''Jackett: undefined'') \<and>
   (Error ''Jackett: undefined'' = TypeError \<or> (\<exists>msg. Error ''Jackett: undefined'' = Error (''Jackett: '' @ msg)))"
proof -
  have e: "get_parsed \<lparr>url = JStr ''http://h'', apiKey = JStr ''K'', altUrl = JUndef, requestUrl = [],
               parseOpts = jackett_parse_opts\<rparr> (JObj [(''error'', JStr ''down'')]) =
     Inl (Error ''Jackett: undefined'')"
    by (simp add: get_parsed_def validate_response_def)
  show ?thesis using e get_parsed_error_kinds [OF e] by simp
qed

end
