(* ===== verification/Interfaces.thy ===== *)
theory Interfaces
  imports Jackett
begin

text \<open>
  The TypeScript types the code is written against, and type soundness of the code
  with respect to them. TypeScript's types are erased at run time, and the deserializer
  returns \<open>any\<close>, so nothing checks that a value has its declared type: \<open>ts_type\<close> is
  the fragment of TypeScript's structural types the interfaces use, and
  \<open>conforms v T\<close> says that the run-time value \<open>v\<close> has type \<open>T\<close> (an object type
  allows extra fields; an optional field may be missing or \<open>undefined\<close>).

  The interfaces \<open>CategoryEntry\<close> and \<open>JackettEntry\<close> (src/interfaces/JackettEntry.ts),
  the configuration (src/config) and the response of spec section 6 are not part of the
  sources; their types are written from spec sections 3 and 6. The lemmas are the two
  halves of type soundness: on values of the declared types the code does not throw
  (progress), and what it returns has the types the \<open>Indexer\<close> constructor and the
  class fields declare (preservation).
\<close>

subsection \<open>Types and conformance\<close>

datatype ts_type =
    TAny
  | TUndefined
  | TString
  | TNumber
  | TArray ts_type
  | TObject "(string \<times> ts_type \<times> bool) list"
  | TUnion ts_type ts_type

text \<open>
  A field \<open>(f, T, opt)\<close> of an object type is the member \<open>f: T\<close>, or \<open>f?: T\<close> when
  \<open>opt\<close> holds.
\<close>

fun conforms :: "jsval \<Rightarrow> ts_type \<Rightarrow> bool" where
  "conforms v TAny = True"
| "conforms v TUndefined = (v = JUndef)"
| "conforms (JStr s) TString = True"
| "conforms (JNum n) TNumber = True"
| "conforms (JArr xs) (TArray t) = (\<forall>x \<in> set xs. conforms x t)"
| "conforms (JObj kvs) (TObject fs) =
     (\<forall>fd \<in> set fs. case map_of kvs (fst fd) of
        None \<Rightarrow> snd (snd fd)
      | Some w \<Rightarrow> conforms w (fst (snd fd)) \<or> (snd (snd fd) \<and> w = JUndef))"
| "conforms v (TUnion a b) = (conforms v a \<or> conforms v b)"
| "conforms v t = False"

subsection \<open>The declared types\<close>

text \<open>
  \<open>interface CategoryEntry { id: string; subcat?: SubCategory[] | SubCategory }\<close>, a
  subcategory having the same shape without further nesting (spec section 3), and the
  parameter type \<open>CategoryEntry[] | CategoryEntry\<close> of \<open>parseCategories\<close>.
\<close>

definition subcat_entry_ty :: ts_type where
  "subcat_entry_ty = TObject [(''id'', TString, False)]"

definition category_entry_ty :: ts_type where
  "category_entry_ty =
     TObject [(''id'', TString, False),
              (''subcat'', TUnion (TArray subcat_entry_ty) subcat_entry_ty, True)]"

definition category_param_ty :: ts_type where
  "category_param_ty = TUnion (TArray category_entry_ty) category_entry_ty"

text \<open>
  \<open>interface JackettEntry { id: string; title: string; caps: Caps }\<close> with
  \<open>Caps = { categories: { category: CategoryEntry[] | CategoryEntry } }\<close>.
\<close>

definition categories_block_ty :: ts_type where
  "categories_block_ty = TObject [(''category'', category_param_ty, False)]"

definition caps_ty :: ts_type where
  "caps_ty = TObject [(''categories'', categories_block_ty, False)]"

definition jackett_entry_ty :: ts_type where
  "jackett_entry_ty =
     TObject [(''id'', TString, False), (''title'', TString, False), (''caps'', caps_ty, False)]"

text \<open>
  The configuration \<open>Config.jackett\<close>: a base URL, an optional alternate URL and an API
  key (spec section 6).
\<close>

definition config_ty :: ts_type where
  "config_ty = TObject [(''url'', TString, False), (''altUrl'', TString, True), (''apiKey'', TString, False)]"

text \<open>
  A discovery response that reports no error and lists its indexers as an array: the
  documents on which the code's \<open>parsedXML.indexers.indexer.map\<close> is well typed.
\<close>

definition indexers_block_ty :: ts_type where
  "indexers_block_ty = TObject [(''indexer'', TArray jackett_entry_ty, False)]"

definition indexer_list_ty :: ts_type where
  "indexer_list_ty = TObject [(''error'', TUndefined, True), (''indexers'', indexers_block_ty, False)]"

text \<open>
  The types the results must have: the \<open>Indexer\<close> constructor takes the id, the name and
  the API key as strings (its numeric, protocol and URL arguments are typed in the model
  itself), and the class declares its fields \<open>url\<close>, \<open>apiKey\<close> and \<open>altUrl\<close> as
  strings (lines 8--10; \<open>requestUrl\<close> and \<open>parseOpts\<close> are typed in the model).
\<close>

definition indexer_conforms :: "indexer \<Rightarrow> bool" where
  "indexer_conforms ix \<longleftrightarrow>
     conforms (ix_id ix) TString \<and> conforms (ix_name ix) TString \<and> conforms (ix_api_key ix) TString"

definition jackett_conforms :: "jackett \<Rightarrow> bool" where
  "jackett_conforms j \<longleftrightarrow>
     conforms (url j) TString \<and> conforms (apiKey j) TString \<and> conforms (altUrl j) TString"

subsection \<open>Conformance lemmas\<close>

lemmas ts_type_defs = subcat_entry_ty_def category_entry_ty_def category_param_ty_def
  categories_block_ty_def caps_ty_def jackett_entry_ty_def config_ty_def indexers_block_ty_def
  indexer_list_ty_def

lemma conforms_TString: "conforms v TString \<longleftrightarrow> (\<exists>s. v = JStr s)"
  by (cases v) auto

lemma conforms_TArray: "conforms v (TArray t) \<longleftrightarrow> (\<exists>xs. v = JArr xs \<and> (\<forall>x \<in> set xs. conforms x t))"
  by (cases v) auto

lemma conforms_TObject_obj: "conforms v (TObject fs) \<Longrightarrow> \<exists>kvs. v = JObj kvs"
  by (cases v) auto

text \<open>Reading a required field of a conforming object gives a value of the field's type.\<close>

lemma conforms_field:
  assumes "conforms v (TObject fs)" and "(f, t, False) \<in> set fs"
  shows "\<exists>w. get_prop v f = Inr w \<and> conforms w t"
proof -
  obtain kvs where v: "v = JObj kvs" using conforms_TObject_obj [OF assms(1)] by blast
  show ?thesis
    using bspec [OF assms(1) [unfolded v conforms.simps] assms(2)] by (auto simp: v split: option.splits)
qed

text \<open>An optional field reads as \<open>undefined\<close> or as a value of its type.\<close>

lemma conforms_opt_field:
  assumes "conforms v (TObject fs)" and "(f, t, True) \<in> set fs"
  shows "\<exists>w. get_prop v f = Inr w \<and> (w = JUndef \<or> conforms w t)"
proof -
  obtain kvs where v: "v = JObj kvs" using conforms_TObject_obj [OF assms(1)] by blast
  show ?thesis
    using bspec [OF assms(1) [unfolded v conforms.simps] assms(2)] by (auto simp: v split: option.splits)
qed

lemma conforms_defined: "conforms v (TObject fs) \<Longrightarrow> js_defined v"
  by (auto simp: js_defined_def dest: conforms_TObject_obj)

lemma xml_collapse_conforms:
  "xs \<noteq> [] \<Longrightarrow> (\<And>x. x \<in> set xs \<Longrightarrow> conforms x t) \<Longrightarrow> conforms (xml_collapse xs) (TUnion (TArray t) t)"
  by (cases xs rule: remdups_adj.cases) (auto simp: xml_collapse_def)

text \<open>The single-versus-list union normalizes to an array of values of the element type.\<close>

lemma as_array_conforms:
  assumes "conforms v (TUnion (TArray (TObject fs)) (TObject fs))"
  shows "\<forall>x \<in> set (as_array v). conforms x (TObject fs)"
  using assms by (cases v) auto

subsection \<open>Progress and preservation\<close>

lemma category_entry_subcats:
  assumes "conforms c category_entry_ty"
  shows "js_defined c \<and>
         (\<forall>sub. get_prop c ''subcat'' = Inr sub \<longrightarrow> truthy sub \<longrightarrow>
                (\<forall>s \<in> set (as_array sub). js_defined s))"
proof -
  obtain w where w: "get_prop c ''subcat'' = Inr w"
    and ty: "w = JUndef \<or> conforms w (TUnion (TArray subcat_entry_ty) subcat_entry_ty)"
    using conforms_opt_field [OF assms [unfolded category_entry_ty_def]] by auto
  have "\<forall>s \<in> set (as_array w). js_defined s" if "w \<noteq> JUndef"
    using ty that as_array_conforms [of w] conforms_defined
    by (auto simp: subcat_entry_ty_def)
  then show ?thesis
    using w assms conforms_defined by (cases "w = JUndef") (auto simp: category_entry_ty_def)
qed

lemma parse_categories_conforms:
  assumes "conforms v category_param_ty"
  shows "\<exists>ns. parse_categories v = Inr ns"
proof -
  have "\<forall>c \<in> set (as_array v). conforms c category_entry_ty"
    using as_array_conforms [of v] assms
    by (simp add: category_param_ty_def category_entry_ty_def)
  then have "\<exists>nss. mapM_res category_ids (as_array v) = Inr nss"
    by (auto intro!: mapM_res_all_Inr category_ids_defined dest!: category_entry_subcats)
  then show ?thesis by (auto simp: parse_categories_concat)
qed

lemma map_to_indexer_progress:
  assumes "conforms e jackett_entry_ty"
  shows "\<exists>ix. map_to_indexer j e = Inr ix"
proof -
  note entry = conforms_field [OF assms [unfolded jackett_entry_ty_def]]
  obtain caps where caps: "get_prop e ''caps'' = Inr caps" and "conforms caps caps_ty"
    using entry [of "''caps''" caps_ty] by auto
  then obtain cats where cats: "get_prop caps ''categories'' = Inr cats"
    and "conforms cats categories_block_ty"
    using conforms_field [of caps "[(''categories'', categories_block_ty, False)]"] by (auto simp: caps_ty_def)
  then obtain category where category: "get_prop cats ''category'' = Inr category"
    and "conforms category category_param_ty"
    using conforms_field [of cats "[(''category'', category_param_ty, False)]"]
    by (auto simp: categories_block_ty_def)
  then obtain ns where "parse_categories category = Inr ns"
    using parse_categories_conforms by blast
  moreover obtain eid title where "get_prop e ''id'' = Inr eid" and "get_prop e ''title'' = Inr title"
    using entry [of "''id''" TString] entry [of "''title''" TString] by auto
  ultimately show ?thesis
    using caps cats category by (simp add: map_to_indexer_def)
qed

lemma map_to_indexer_preservation:
  assumes "map_to_indexer j e = Inr ix" and "conforms e jackett_entry_ty"
    and "conforms (apiKey j) TString"
  shows "indexer_conforms ix"
proof -
  note entry = conforms_field [OF assms(2) [unfolded jackett_entry_ty_def]]
  have "get_prop e ''id'' = Inr (ix_id ix)" and "get_prop e ''title'' = Inr (ix_name ix)"
    and "ix_api_key ix = apiKey j"
    using map_to_indexer_fields [OF assms(1)] by simp_all
  with entry [of "''id''" TString] entry [of "''title''" TString] show ?thesis
    using assms(3) by (auto simp: indexer_conforms_def)
qed

lemma validate_response_conforms:
  assumes "conforms p indexer_list_ty"
  shows "\<exists>es. validate_response p = Inr (JArr es) \<and> (\<forall>e \<in> set es. conforms e jackett_entry_ty)"
proof -
  obtain err where err: "get_prop p ''error'' = Inr err" and "err = JUndef"
    using conforms_opt_field [OF assms [unfolded indexer_list_ty_def], of "''error''" TUndefined]
    by auto
  moreover obtain ixv where ixv: "get_prop p ''indexers'' = Inr ixv" and "conforms ixv indexers_block_ty"
    using conforms_field [OF assms [unfolded indexer_list_ty_def], of "''indexers''" indexers_block_ty]
    by auto
  moreover then obtain v where "get_prop ixv ''indexer'' = Inr v" and "conforms v (TArray jackett_entry_ty)"
    using conforms_field [of ixv "[(''indexer'', TArray jackett_entry_ty, False)]"]
    by (auto simp: indexers_block_ty_def)
  ultimately show ?thesis
    by (auto simp: validate_response_def conforms_TArray)
qed

lemma get_parsed_conforms:
  assumes "conforms (apiKey j) TString" and "conforms p indexer_list_ty"
  shows "\<exists>ixs. get_parsed j p = Inr ixs \<and> (\<forall>ix \<in> set ixs. indexer_conforms ix)"
proof -
  obtain es where v: "validate_response p = Inr (JArr es)" and es: "\<forall>e \<in> set es. conforms e jackett_entry_ty"
    using validate_response_conforms [OF assms(2)] by blast
  then obtain ixs where m: "mapM_res (map_to_indexer j) es = Inr ixs"
    using mapM_res_all_Inr [of es "map_to_indexer j"] map_to_indexer_progress by blast
  then have "list_all2 (\<lambda>e ix. map_to_indexer j e = Inr ix) es ixs"
    by (simp add: mapM_res_Inr_iff)
  then have "\<forall>ix \<in> set ixs. indexer_conforms ix"
    using es by (induction rule: list_all2_induct) (auto intro: map_to_indexer_preservation assms(1))
  then show ?thesis using v m by (simp add: get_parsed_def)
qed

lemma jackett_init_conforms:
  assumes "conforms c config_ty"
  shows "\<exists>j. jackett_init c = Inr j \<and> conforms (url j) TString \<and> conforms (apiKey j) TString \<and>
             (jackett_conforms j \<longleftrightarrow> altUrl j \<noteq> JUndef)"
proof -
  note cfg = assms [unfolded config_ty_def]
  obtain u k where "get_prop c ''url'' = Inr u" "conforms u TString"
    "get_prop c ''apiKey'' = Inr k" "conforms k TString"
    using conforms_field [OF cfg, of "''url''" TString] conforms_field [OF cfg, of "''apiKey''" TString]
    by auto
  moreover obtain a where "get_prop c ''altUrl'' = Inr a" "a = JUndef \<or> conforms a TString"
    using conforms_opt_field [OF cfg, of "''altUrl''" TString] by auto
  ultimately show ?thesis
    by (auto simp: jackett_init_def jackett_conforms_def conforms_TString)
qed

subsection \<open>The deserializer's output against the declared types\<close>

lemma enc_subcat_conforms: "plain_attributes opts \<Longrightarrow> conforms (enc_subcat opts s) subcat_entry_ty"
  by (simp add: enc_subcat_plain subcat_entry_ty_def)

lemma enc_category_conforms:
  assumes "plain_attributes opts"
  shows "conforms (enc_category opts c) category_entry_ty"
proof -
  have "cat_subcats c \<noteq> [] \<Longrightarrow>
          conforms (xml_collapse (map (enc_subcat opts) (cat_subcats c)))
                   (TUnion (TArray subcat_entry_ty) subcat_entry_ty)"
    using assms by (intro xml_collapse_conforms) (auto intro: enc_subcat_conforms)
  then show ?thesis
    using assms by (simp add: enc_category_plain category_entry_ty_def)
qed

lemma enc_category_list_conforms:
  "plain_attributes opts \<Longrightarrow> cs \<noteq> [] \<Longrightarrow> conforms (enc_category_list opts cs) category_param_ty"
  unfolding enc_category_list_def category_param_ty_def
  by (intro xml_collapse_conforms) (auto intro: enc_category_conforms)

lemma enc_entry_conforms:
  assumes "plain_attributes opts"
  shows "conforms (enc_entry opts e) jackett_entry_ty \<longleftrightarrow> e_cats e \<noteq> [] \<and> conforms (e_title e) TString"
  using assms enc_category_list_conforms [OF assms, of "e_cats e"]
  by (simp add: enc_entry_plain jackett_entry_ty_def caps_ty_def categories_block_ty_def)

subsection \<open>Type soundness of the code\<close>

text \<open>
  C24. Type soundness of \<open>mapToIndexer\<close>: on an entry of type \<open>JackettEntry\<close> and with
  the API key a string, \<open>mapToIndexer\<close> throws nothing and passes the \<open>Indexer\<close>
  constructor an id, a name and an API key that are strings.
\<close>

theorem map_to_indexer_type_sound:
  assumes "conforms e jackett_entry_ty" and "conforms (apiKey j) TString"
  shows "\<exists>ix. map_to_indexer j e = Inr ix \<and> indexer_conforms ix"
  using map_to_indexer_progress [OF assms(1)] map_to_indexer_preservation [OF _ assms] by blast

theorem map_to_indexer_type_sound_witness:
  "\<exists>ix. map_to_indexer \<lparr>url = JStr ''http://h'', apiKey = JStr ''K'', altUrl = JUndef, requestUrl = [],
                       parseOpts = jackett_parse_opts\<rparr>
         (JObj [(''id'', JStr ''5''), (''title'', JStr ''T''),
                (''caps'', JObj [(''categories'', JObj [(''category'', JObj [(''id'', JStr ''2000'')])])])])
         = Inr ix \<and> indexer_conforms ix"
  by (rule map_to_indexer_type_sound) (simp_all add: ts_type_defs)

text \<open>
  C25. Type soundness of \<open>get\<close> after deserialization: for an object whose API key is a
  string and a document that reports no error and lists its indexers as an
  array of \<open>JackettEntry\<close> values, \<open>get\<close> returns, and every record it returns has string
  id, name and API key.
\<close>

theorem get_parsed_type_sound:
  assumes "conforms (apiKey j) TString" and "conforms p indexer_list_ty"
  shows "\<exists>ixs. get_parsed j p = Inr ixs \<and> (\<forall>ix \<in> set ixs. indexer_conforms ix)"
  using assms by (rule get_parsed_conforms)

theorem get_parsed_type_sound_witness:
  "\<exists>ixs. get_parsed \<lparr>url = JStr ''http://h'', apiKey = JStr ''K'', altUrl = JUndef, requestUrl = [],
                      parseOpts = jackett_parse_opts\<rparr>
          (JObj [(''indexers'', JObj [(''indexer'', JArr
             [JObj [(''id'', JStr ''5''), (''title'', JStr ''T''),
                    (''caps'', JObj [(''categories'', JObj [(''category'', JObj [(''id'', JStr ''2000'')])])])]])])])
          = Inr ixs \<and> (\<forall>ix \<in> set ixs. indexer_conforms ix)"
  by (rule get_parsed_type_sound) (simp_all add: ts_type_defs)

text \<open>
  C26. The constructor on a configuration of its declared type (string URL and API key,
  optional string alternate URL) does not throw and stores strings in \<open>url\<close> and
  \<open>apiKey\<close>; the object has the field types the class declares exactly when the
  configuration sets the alternate URL. Without one, \<open>altUrl\<close>, declared \<open>string\<close>,
  holds \<open>undefined\<close>.
\<close>

theorem jackett_init_type_sound:
  "conforms c config_ty \<Longrightarrow>
     \<exists>j. jackett_init c = Inr j \<and> conforms (url j) TString \<and> conforms (apiKey j) TString \<and>
         (jackett_conforms j \<longleftrightarrow> altUrl j \<noteq> JUndef)"
  by (rule jackett_init_conforms)

theorem jackett_init_type_sound_witness:
  "\<exists>j. jackett_init (JObj [(''url'', JStr ''http://h''), (''apiKey'', JStr ''K'')]) = Inr j \<and>
       conforms (url j) TString \<and> conforms (apiKey j) TString \<and> \<not> jackett_conforms j"
proof -
  have "conforms (JObj [(''url'', JStr ''http://h''), (''apiKey'', JStr ''K'')]) config_ty"
    by (simp add: ts_type_defs)
  from jackett_init_type_sound [OF this] obtain j
    where "jackett_init (JObj [(''url'', JStr ''http://h''), (''apiKey'', JStr ''K'')]) = Inr j"
      and "conforms (url j) TString" and "conforms (apiKey j) TString"
      and "jackett_conforms j \<longleftrightarrow> altUrl j \<noteq> JUndef"
    by blast
  moreover from this(1) have "altUrl j = JUndef"
    by (auto simp: jackett_init_def)
  ultimately show ?thesis by auto
qed

text \<open>
  C28. The deserializer's output for an indexer entry (spec section 3, under the
  program's \<open>parseOpts\<close>) has the declared type \<open>JackettEntry\<close> exactly when the entry
  has at least one category and the deserializer kept its title as a string. A title the
  deserializer reads as a number, and an entry without categories, fall outside the type
  the code is written against.
\<close>

theorem enc_entry_type:
  "conforms (enc_entry jackett_parse_opts e) jackett_entry_ty \<longleftrightarrow>
     e_cats e \<noteq> [] \<and> conforms (e_title e) TString"
  by (rule enc_entry_conforms) simp

theorem enc_entry_type_witness:
  "\<not> conforms (enc_entry jackett_parse_opts
       \<lparr>e_id = ''5'', e_title = JNum (Num 1337), e_cats = [Category 2000 ''Movies'' []]\<rparr>)
     jackett_entry_ty"
  using enc_entry_type [of "\<lparr>e_id = ''5'', e_title = JNum (Num 1337), e_cats = [Category 2000 ''Movies'' []]\<rparr>"]
  by simp

end
