(* ===== verification/XmlTree.thy ===== *)
theory XmlTree
  imports Interfaces
begin

text \<open>
  The XML deserializer's conversion of a document tree into the object the code reads
  (fast-xml-parser's \<open>parse\<close>, an external collaborator called at line 31). Reading the
  text into a tree is not modelled; the conversion of the tree is
  the recursive function \<open>xml_to_js\<close>: an element becomes an object with one field per
  kept attribute and one per child tag, in order of first occurrence, holding the child
  itself when the tag occurs once and an array of the children otherwise; its text goes
  to the field \<open>#text\<close>, or is the element's value when it has neither kept attributes
  nor child elements; an empty element is the empty string. How a text is turned into a
  value (fast-xml-parser's \<open>parseNodeValue\<close>, which turns numeric text into numbers)
  is the parameter \<open>tv\<close>. Texts are taken as the parser hands them over after
  trimming, so whitespace between elements does not occur.

  The lemmas show that the tree of a discovery response (spec section 6) converts to
  the encoding \<open>enc_response\<close> that the refinement theorems of \<open>Jackett\<close> start
  from, and what \<open>mapToIndexer\<close> makes of an entry whose title the deserializer
  turns into a number.
\<close>

datatype xnode = XElem string "(string \<times> string) list" "xnode list" | XText string

fun node_tag :: "xnode \<Rightarrow> string option" where
  "node_tag (XElem t attrs kids) = Some t"
| "node_tag (XText s) = None"

fun node_text :: "xnode \<Rightarrow> string" where
  "node_text (XElem t attrs kids) = []"
| "node_text (XText s) = s"

definition child_tags :: "xnode list \<Rightarrow> string list" where
  "child_tags kids = remdups (List.map_filter node_tag kids)"

fun add_text_field :: "jsval \<Rightarrow> jsval \<Rightarrow> jsval" where
  "add_text_field (JObj kvs) v = JObj (kvs @ [(''#text'', v)])"
| "add_text_field obj v = obj"

fun xml_to_js :: "(string \<Rightarrow> jsval) \<Rightarrow> parse_options \<Rightarrow> xnode \<Rightarrow> jsval" where
  "xml_to_js tv opts (XText s) = tv s"
| "xml_to_js tv opts (XElem t attrs kids) =
     (let obj = xml_element opts attrs
                  (map (\<lambda>g. (g, map (xml_to_js tv opts) (filter (\<lambda>k. node_tag k = Some g) kids)))
                       (child_tags kids));
          text = concat (map node_text kids)
      in if obj = JStr [] then (if text = [] then JStr [] else tv text)
         else if text = [] then obj else add_text_field obj (tv text))"

text \<open>
  The part of \<open>parseNodeValue\<close> that a discovery response exercises: a text made of
  decimal digits becomes the number it denotes, any other text stays a string.
\<close>

definition digits_value :: "string \<Rightarrow> jsval" where
  "digits_value s =
     (if s \<noteq> [] \<and> (\<forall>c \<in> set s. dec_digit c) then JNum (parse_int_str s) else JStr s)"

subsection \<open>The document of a discovery response\<close>

text \<open>
  The elements of spec sections 3 and 6: an indexer entry has the attributes \<open>id\<close> and
  \<open>configured\<close>, a \<open>title\<close> child holding its text and a \<open>caps\<close> child holding
  \<open>categories\<close>, holding one \<open>category\<close> element per category, each with one
  \<open>subcat\<close> element per subcategory.
\<close>

record entry_doc =
  d_id :: string
  d_title :: string
  d_cats :: "category list"

definition subcat_node :: "int \<times> string \<Rightarrow> xnode" where
  "subcat_node s = XElem ''subcat'' [(''id'', string_of_int (fst s)), (''name'', snd s)] []"

definition category_node :: "category \<Rightarrow> xnode" where
  "category_node c =
     XElem ''category'' [(''id'', string_of_int (cat_id c)), (''name'', cat_name c)]
       (map subcat_node (cat_subcats c))"

definition entry_node :: "entry_doc \<Rightarrow> xnode" where
  "entry_node d =
     XElem ''indexer'' [(''id'', d_id d), (''configured'', ''true'')]
       [XElem ''title'' [] [XText (d_title d)],
        XElem ''caps'' [] [XElem ''categories'' [] (map category_node (d_cats d))]]"

definition catalog_doc :: "entry_doc list \<Rightarrow> xnode list" where
  "catalog_doc ds = [XElem ''indexers'' [] (map entry_node ds)]"

definition error_doc :: "string \<Rightarrow> string \<Rightarrow> xnode list" where
  "error_doc code msg = [XElem ''error'' [(''code'', code), (''description'', msg)] []]"

definition text_value :: "(string \<Rightarrow> jsval) \<Rightarrow> string \<Rightarrow> jsval" where
  "text_value tv s = (if s = [] then JStr [] else tv s)"

definition entry_of :: "(string \<Rightarrow> jsval) \<Rightarrow> entry_doc \<Rightarrow> entry_spec" where
  "entry_of tv d = \<lparr>e_id = d_id d, e_title = text_value tv (d_title d), e_cats = d_cats d\<rparr>"

subsection \<open>Conversion lemmas\<close>

lemma if_empty_self: "(if v = JStr [] then JStr [] else v) = v"
  by simp

declare xml_to_js.simps(2) [simp del]

lemma remdups_replicate_Suc: "remdups (replicate (Suc n) x) = [x]"
  by (induction n) auto

lemma xml_to_js_no_text:
  "concat (map node_text kids) = [] \<Longrightarrow>
     xml_to_js tv opts (XElem t attrs kids) =
       xml_element opts attrs
         (map (\<lambda>g. (g, map (xml_to_js tv opts) (filter (\<lambda>k. node_tag k = Some g) kids))) (child_tags kids))"
  by (simp add: xml_to_js.simps(2) Let_def if_empty_self)

lemma xml_to_js_leaf: "xml_to_js tv opts (XElem t attrs []) = xml_element opts attrs []"
  using xml_to_js_no_text [of "[]" tv opts t attrs] by (simp add: child_tags_def List.map_filter_def)

text \<open>Children that all carry the same tag form one group, in document order.\<close>

lemma xml_to_js_same_tag:
  assumes "kids \<noteq> []" and "\<forall>k \<in> set kids. node_tag k = Some g"
  shows "xml_to_js tv opts (XElem t attrs kids) = xml_element opts attrs [(g, map (xml_to_js tv opts) kids)]"
proof -
  have "concat (map node_text kids) = []"
    using assms(2) by (induction kids) (auto elim: node_tag.elims)
  moreover have mf: "List.map_filter node_tag kids = replicate (length kids) g"
    using assms(2) by (induction kids) (auto simp: List.map_filter_def)
  have "child_tags kids = [g]"
  proof -
    obtain k ks where "kids = k # ks" using assms(1) by (cases kids) auto
    then show ?thesis using mf by (simp only: child_tags_def length_Cons remdups_replicate_Suc)
  qed
  moreover have "filter (\<lambda>k. node_tag k = Some g) kids = kids"
    using assms(2) by simp
  ultimately show ?thesis by (simp only: xml_to_js_no_text) simp
qed

lemma xml_element_empty_group: "xml_element opts attrs [(g, [])] = xml_element opts attrs []"
  by (simp add: xml_element_def)

lemma category_node_conv: "xml_to_js tv opts (category_node c) = enc_category opts c"
proof (cases "cat_subcats c = []")
  case True
  then have "category_node c = XElem ''category'' [(''id'', string_of_int (cat_id c)), (''name'', cat_name c)] []"
    by (simp add: category_node_def)
  with True show ?thesis
    by (simp add: enc_category_def xml_to_js_leaf xml_element_empty_group)
next
  case False
  have "xml_to_js tv opts (subcat_node s) = enc_subcat opts s" for s
    by (simp add: subcat_node_def enc_subcat_def xml_to_js_leaf)
  then have conv: "map (xml_to_js tv opts) (map subcat_node (cat_subcats c)) = map (enc_subcat opts) (cat_subcats c)"
    by simp
  have "\<forall>k \<in> set (map subcat_node (cat_subcats c)). node_tag k = Some ''subcat''"
    by (simp add: subcat_node_def)
  from xml_to_js_same_tag [OF _ this] False conv show ?thesis
    by (simp add: category_node_def enc_category_def comp_def cong: map_cong)
qed

lemma xml_to_js_text_only: "xml_to_js tv opts (XElem t [] [XText s]) = text_value tv s"
  by (simp add: xml_to_js.simps(2) child_tags_def List.map_filter_def xml_element_def text_value_def)

lemma xml_to_js_single_child:
  "node_tag k = Some g \<Longrightarrow> xml_to_js tv opts (XElem t attrs [k]) = xml_element opts attrs [(g, [xml_to_js tv opts k])]"
  using xml_to_js_same_tag [of "[k]" g tv opts t attrs] by simp

lemma categories_node_conv:
  "xml_to_js tv opts (XElem ''categories'' [] (map category_node cs)) =
     xml_element opts [] [(''category'', map (enc_category opts) cs)]"
proof (cases "cs = []")
  case True
  then show ?thesis by (simp add: xml_to_js_leaf xml_element_empty_group)
next
  case False
  have "\<forall>k \<in> set (map category_node cs). node_tag k = Some ''category''"
    by (simp add: category_node_def)
  from xml_to_js_same_tag [OF _ this] False show ?thesis
    by (simp add: category_node_conv comp_def)
qed

lemma entry_node_conv: "xml_to_js tv opts (entry_node d) = enc_entry opts (entry_of tv d)"
proof -
  let ?title = "XElem ''title'' [] [XText (d_title d)]"
  let ?caps = "XElem ''caps'' [] [XElem ''categories'' [] (map category_node (d_cats d))]"
  have groups: "child_tags [?title, ?caps] = [''title'', ''caps'']"
    by (simp add: child_tags_def List.map_filter_def)
  have "xml_to_js tv opts (entry_node d) =
          xml_element opts [(''id'', d_id d), (''configured'', ''true'')]
            [(''title'', [xml_to_js tv opts ?title]), (''caps'', [xml_to_js tv opts ?caps])]"
    unfolding entry_node_def by (subst xml_to_js_no_text) (simp_all add: groups)
  then show ?thesis
    by (simp add: enc_entry_def entry_of_def xml_to_js_text_only xml_to_js_single_child
        categories_node_conv)
qed

lemma catalog_doc_conv:
  "xml_to_js tv opts (XElem [] [] (catalog_doc ds)) = enc_response opts (map (entry_of tv) ds)"
proof (cases "ds = []")
  case True
  then show ?thesis
    by (simp add: catalog_doc_def enc_response_def xml_to_js_single_child xml_to_js_leaf
        xml_element_empty_group)
next
  case False
  have "\<forall>k \<in> set (map entry_node ds). node_tag k = Some ''indexer''"
    by (simp add: entry_node_def)
  from xml_to_js_same_tag [OF _ this] False show ?thesis
    by (simp add: catalog_doc_def enc_response_def xml_to_js_single_child entry_node_conv comp_def)
qed

lemma error_doc_conv: "xml_to_js tv opts (XElem [] [] (error_doc code msg)) = enc_error opts code msg"
  by (simp add: error_doc_def enc_error_def xml_to_js_single_child xml_to_js_leaf)

subsection \<open>mapToIndexer on a deserialized entry\<close>

text \<open>
  C20. The deserializer turns a title made of digits into a number (its default
  \<open>parseNodeValue\<close>, which \<open>parseOpts\<close> leaves on): \<open>mapToIndexer\<close> then passes that
  number as the \<open>Indexer\<close>'s name, outside the declared type \<open>string\<close>.
\<close>

theorem map_to_indexer_numeric_title:
  assumes "d_title d \<noteq> []" and "\<forall>c \<in> set (d_title d). dec_digit c" and "d_cats d \<noteq> []"
  shows "\<exists>ix. map_to_indexer j (xml_to_js digits_value jackett_parse_opts (entry_node d)) = Inr ix \<and>
              ix_name ix = JNum (parse_int_str (d_title d)) \<and> \<not> indexer_conforms ix"
proof -
  have "map_to_indexer j (xml_to_js digits_value jackett_parse_opts (entry_node d)) =
          Inr (normalize_entry j (entry_of digits_value d))"
    using assms(3) by (simp add: entry_node_conv map_to_indexer_enc entry_of_def)
  moreover have "e_title (entry_of digits_value d) = JNum (parse_int_str (d_title d))"
    using assms(1,2) by (simp add: entry_of_def text_value_def digits_value_def)
  ultimately show ?thesis
    by (simp add: normalize_entry_def indexer_conforms_def)
qed

theorem map_to_indexer_numeric_title_witness:
  "\<exists>ix. map_to_indexer \<lparr>url = JStr ''http://h'', apiKey = JStr ''K'', altUrl = JUndef, requestUrl = [],
                       parseOpts = jackett_parse_opts\<rparr>
         (xml_to_js digits_value jackett_parse_opts
           (entry_node \<lparr>d_id = ''5'', d_title = ''1337'', d_cats = [Category 2000 ''Movies'' []]\<rparr>)) = Inr ix \<and>
       ix_name ix = JNum (Num 1337) \<and> \<not> indexer_conforms ix"
proof -
  have "parse_int_str ''1337'' = Num 1337"
    using parse_int_str_string_of_int [of 1337] by (simp add: js_eval)
  then show ?thesis
    using map_to_indexer_numeric_title [of "\<lparr>d_id = ''5'', d_title = ''1337'', d_cats = [Category 2000 ''Movies'' []]\<rparr>"
        "\<lparr>url = JStr ''http://h'', apiKey = JStr ''K'', altUrl = JUndef, requestUrl = [],
          parseOpts = jackett_parse_opts\<rparr>"]
    by (simp add: dec_digit_def)
qed

end
