(* ===== verification/RequestUrl.thy ===== *)
theory RequestUrl
  imports Jackett
begin

text \<open>
  How the service reads the discovery URL the constructor builds (line 25). The code
  interpolates the API key into the query string as it is, without
  \<open>encodeURIComponent\<close>. The service reads the query the way a URL's query parameters
  are read (the WHATWG URL standard, \<open>application/x-www-form-urlencoded\<close> parsing and
  \<open>URLSearchParams.get\<close>): the query is what follows the first \<open>?\<close> up to the first
  \<open>#\<close>; it is split at every \<open>&\<close>, empty pieces are dropped, each piece is split at its
  first \<open>=\<close>, and both halves are decoded (\<open>+\<close> is a space, \<open>%\<close> and two hexadecimal
  digits a byte); \<open>get\<close> returns the value of the first pair with the name. These
  definitions describe the reader of the URL, an external collaborator; they are not
  code of the repository.

  The lemmas show that the API key, the \<open>t\<close> and the \<open>configured\<close> parameters are read
  back for every key that has none of the characters \<open>& # % +\<close>, and give exactly the
  keys that are not: a key with \<open>&\<close> or \<open>#\<close> is cut, and a key that the decoder changes
  (\<open>+\<close>, or \<open>%\<close> followed by two hexadecimal digits) is altered.
\<close>

fun split_on :: "char \<Rightarrow> string \<Rightarrow> string list" where
  "split_on c [] = [[]]"
| "split_on c (x # xs) =
     (let r = split_on c xs in if x = c then [] # r else (x # hd r) # tl r)"

definition hex_value :: "char \<Rightarrow> nat option" where
  "hex_value c =
     (let n = of_char c :: nat in
      if 48 \<le> n \<and> n \<le> 57 then Some (n - 48)
      else if 65 \<le> n \<and> n \<le> 70 then Some (n - 55)
      else if 97 \<le> n \<and> n \<le> 102 then Some (n - 87)
      else None)"

definition plus_space :: "char \<Rightarrow> char" where
  "plus_space c = (if c = CHR ''+'' then CHR '' '' else c)"

fun pct_decode :: "string \<Rightarrow> string" where
  "pct_decode (c # h # l # cs) =
     (case (hex_value h, hex_value l) of
        (Some a, Some b) \<Rightarrow>
          if c = CHR ''%'' then char_of (16 * a + b) # pct_decode cs
          else plus_space c # pct_decode (h # l # cs)
      | _ \<Rightarrow> plus_space c # pct_decode (h # l # cs))"
| "pct_decode (c # cs) = plus_space c # pct_decode cs"
| "pct_decode [] = []"

definition form_pair :: "string \<Rightarrow> string \<times> string" where
  "form_pair seg =
     (pct_decode (takeWhile (\<lambda>c. c \<noteq> CHR ''='') seg),
      pct_decode (drop 1 (dropWhile (\<lambda>c. c \<noteq> CHR ''='') seg)))"

definition url_query :: "string \<Rightarrow> string option" where
  "url_query s =
     (let s' = takeWhile (\<lambda>c. c \<noteq> CHR ''#'') s in
      if CHR ''?'' \<in> set s' then Some (tl (dropWhile (\<lambda>c. c \<noteq> CHR ''?'') s')) else None)"

definition query_get :: "string \<Rightarrow> string \<Rightarrow> string option" where
  "query_get s name =
     (case url_query s of
        None \<Rightarrow> None
      | Some q \<Rightarrow> map_of (map form_pair (filter (\<lambda>seg. seg \<noteq> []) (split_on CHR ''&'' q))) name)"

subsection \<open>Splitting and decoding\<close>

lemma takeWhile_not_in [simp]: "c \<notin> set xs \<Longrightarrow> takeWhile (\<lambda>x. x \<noteq> c) xs = xs"
  by (auto simp: takeWhile_eq_all_conv)

lemma takeWhile_append_not_in [simp]:
  "c \<notin> set xs \<Longrightarrow> takeWhile (\<lambda>x. x \<noteq> c) (xs @ ys) = xs @ takeWhile (\<lambda>x. x \<noteq> c) ys"
  by (induction xs) auto

lemma dropWhile_append_not_in [simp]:
  "c \<notin> set xs \<Longrightarrow> dropWhile (\<lambda>x. x \<noteq> c) (xs @ ys) = dropWhile (\<lambda>x. x \<noteq> c) ys"
  by (induction xs) auto

lemma split_on_no_sep: "c \<notin> set xs \<Longrightarrow> split_on c xs = [xs]"
  by (induction xs) (auto simp: Let_def)

lemma split_on_sep: "c \<notin> set xs \<Longrightarrow> split_on c (xs @ c # ys) = xs # split_on c ys"
  by (induction xs) (auto simp: Let_def)

lemma split_on_not_Nil: "split_on c xs \<noteq> []"
  by (induction xs) (auto simp: Let_def)

text \<open>The first piece is everything before the first separator.\<close>

lemma split_on_first: "\<exists>rest. split_on c xs = takeWhile (\<lambda>x. x \<noteq> c) xs # rest"
proof (cases "c \<in> set xs")
  case True
  then obtain as bs where "xs = as @ c # bs" and "c \<notin> set as"
    by (metis split_list_first)
  then show ?thesis by (simp add: split_on_sep takeWhile_tail)
next
  case False
  then show ?thesis by (simp add: split_on_no_sep)
qed

text \<open>
  Decoding either changes nothing but \<open>+\<close> into a space, character for character, or
  shortens the string (a percent escape was decoded).
\<close>

lemma pct_decode_cases: "pct_decode s = map plus_space s \<or> length (pct_decode s) < length s"
  by (induction s rule: pct_decode.induct) (auto split: option.splits)

lemma pct_decode_length: "length (pct_decode s) \<le> length s"
  using pct_decode_cases [of s] by (auto simp: length_map)

lemma hex_value_percent: "hex_value c \<noteq> None \<Longrightarrow> c \<noteq> CHR ''%''"
  by (auto simp: hex_value_def Let_def)

lemma pct_decode_plain: "CHR ''%'' \<notin> set s \<Longrightarrow> CHR ''+'' \<notin> set s \<Longrightarrow> pct_decode s = s"
  by (induction s rule: pct_decode.induct) (auto simp: plus_space_def split: option.splits)


subsection \<open>Reading a parameter back\<close>

text \<open>The value of the first parameter is its piece up to the first \<open>&\<close>, decoded.\<close>

lemma query_get_first:
  assumes "url_query s = Some (name @ CHR ''='' # w)" and "CHR ''='' \<notin> set name"
    and "CHR ''&'' \<notin> set name" and "pct_decode name = name"
  shows "query_get s name = Some (pct_decode (takeWhile (\<lambda>c. c \<noteq> CHR ''&'') w))"
proof -
  have "takeWhile (\<lambda>c. c \<noteq> CHR ''&'') (name @ CHR ''='' # w) =
          name @ CHR ''='' # takeWhile (\<lambda>c. c \<noteq> CHR ''&'') w"
    using assms(3) by simp
  then obtain rest where sp: "split_on CHR ''&'' (name @ CHR ''='' # w) =
      (name @ CHR ''='' # takeWhile (\<lambda>c. c \<noteq> CHR ''&'') w) # rest"
    using split_on_first [of "CHR ''&''" "name @ CHR ''='' # w"] by auto
  have "form_pair (name @ CHR ''='' # x) = (name, pct_decode x)" for x
    using assms(2,4) by (simp add: form_pair_def)
  then show ?thesis
    using assms(1) sp by (simp add: query_get_def)
qed

lemma url_query_split:
  assumes "CHR ''?'' \<notin> set pre" and "CHR ''#'' \<notin> set pre" and "CHR ''#'' \<notin> set q"
  shows "url_query (pre @ CHR ''?'' # q @ r) = Some (q @ takeWhile (\<lambda>c. c \<noteq> CHR ''#'') r)"
proof -
  have "takeWhile (\<lambda>c. c \<noteq> CHR ''#'') (pre @ CHR ''?'' # q @ r) =
          pre @ CHR ''?'' # q @ takeWhile (\<lambda>c. c \<noteq> CHR ''#'') r"
    using assms(2,3) by simp
  moreover have "dropWhile (\<lambda>c. c \<noteq> CHR ''?'') (pre @ CHR ''?'' # x) = CHR ''?'' # x" for x
    using assms(1) by simp
  ultimately show ?thesis by (simp add: url_query_def)
qed

lemma request_url_shape:
  "request_url (JStr u) (JStr k) =
     (u @ ''/api/v2.0/indexers/all/results/torznab/api'') @ CHR ''?'' # (''apikey'' @ [CHR ''='']) @
       k @ ''&t=indexers&configured=true''"
  by (simp add: request_url_def)

lemma takeWhile_amp_hash:
  "takeWhile (\<lambda>c. c \<noteq> CHR ''&'') (takeWhile (\<lambda>c. c \<noteq> CHR ''#'') (k @ CHR ''&'' # t)) =
     takeWhile (\<lambda>c. c \<noteq> CHR ''&'') (takeWhile (\<lambda>c. c \<noteq> CHR ''#'') k)"
  by (induction k) auto

text \<open>
  What the service reads as the API key: the key up to its first \<open>#\<close> and then up to
  its first \<open>&\<close>, decoded.
\<close>

lemma request_url_apikey:
  assumes "CHR ''?'' \<notin> set u" and "CHR ''#'' \<notin> set u"
  shows "query_get (request_url (JStr u) (JStr k)) ''apikey'' =
           Some (pct_decode (takeWhile (\<lambda>c. c \<noteq> CHR ''&'') (takeWhile (\<lambda>c. c \<noteq> CHR ''#'') k)))"
proof -
  have "url_query (request_url (JStr u) (JStr k)) =
          Some (''apikey'' @ CHR ''='' # takeWhile (\<lambda>c. c \<noteq> CHR ''#'') (k @ ''&t=indexers&configured=true''))"
    unfolding request_url_shape using assms by (subst url_query_split) simp_all
  moreover have "pct_decode ''apikey'' = ''apikey''"
    by (rule pct_decode_plain) simp_all
  ultimately show ?thesis
    using query_get_first [of _ "''apikey''"] by (simp add: takeWhile_amp_hash)
qed

lemma length_takeWhile_not_in:
  "c \<in> set xs \<Longrightarrow> length (takeWhile (\<lambda>x. x \<noteq> c) xs) < length xs"
  by (induction xs) auto

text \<open>For a key without \<open>&\<close> and \<open>#\<close>, the fixed parameters are read as the code writes them.\<close>

lemma request_url_fixed_params:
  assumes "CHR ''?'' \<notin> set u" and "CHR ''#'' \<notin> set u"
    and "CHR ''&'' \<notin> set k" and "CHR ''#'' \<notin> set k"
  shows "query_get (request_url (JStr u) (JStr k)) ''t'' = Some ''indexers'' \<and>
         query_get (request_url (JStr u) (JStr k)) ''configured'' = Some ''true''"
proof -
  have q: "url_query (request_url (JStr u) (JStr k)) =
             Some ((''apikey'' @ CHR ''='' # k) @ CHR ''&'' # ''t=indexers&configured=true'')"
    unfolding request_url_shape using assms by (subst url_query_split) simp_all
  have sp: "split_on CHR ''&'' ((''apikey'' @ CHR ''='' # k) @ CHR ''&'' # ''t=indexers&configured=true'') =
              (''apikey'' @ CHR ''='' # k) # [''t=indexers'', ''configured=true'']"
    using assms(3) by (subst split_on_sep) (simp_all add: Let_def)
  have "pct_decode ''apikey'' = ''apikey''" "pct_decode ''t'' = ''t''"
    "pct_decode ''indexers'' = ''indexers''" "pct_decode ''configured'' = ''configured''"
    "pct_decode ''true'' = ''true''"
    by (rule pct_decode_plain; simp)+
  then show ?thesis
    using q sp by (simp add: query_get_def form_pair_def del: pct_decode.simps)
qed

subsection \<open>The API key in the discovery URL\<close>

text \<open>
  C29. Round trip of the discovery URL: for a base URL without \<open>?\<close> and \<open>#\<close> and an API
  key without any of \<open>& # % +\<close>, the reader of the URL the constructor builds gets the
  key back as the \<open>apikey\<close> parameter, and \<open>t=indexers\<close> and \<open>configured=true\<close>.
\<close>

theorem request_url_roundtrip:
  assumes "CHR ''?'' \<notin> set u" and "CHR ''#'' \<notin> set u"
    and "CHR ''&'' \<notin> set k" and "CHR ''#'' \<notin> set k" and "CHR ''%'' \<notin> set k" and "CHR ''+'' \<notin> set k"
  shows "query_get (request_url (JStr u) (JStr k)) ''apikey'' = Some k \<and>
         query_get (request_url (JStr u) (JStr k)) ''t'' = Some ''indexers'' \<and>
         query_get (request_url (JStr u) (JStr k)) ''configured'' = Some ''true''"
  using request_url_apikey [OF assms(1,2), of k] request_url_fixed_params [OF assms(1-4)]
    pct_decode_plain [OF assms(5,6)] assms(3,4)
  by simp

theorem request_url_roundtrip_witness:
  "query_get (request_url (JStr ''http://h'') (JStr ''0123abc'')) ''apikey'' = Some ''0123abc'' \<and>
   query_get (request_url (JStr ''http://h'') (JStr ''0123abc'')) ''t'' = Some ''indexers'' \<and>
   query_get (request_url (JStr ''http://h'') (JStr ''0123abc'')) ''configured'' = Some ''true''"
  by (rule request_url_roundtrip) simp_all

text \<open>
  C30. The constructor does not encode the API key: the reader gets the key back exactly
  when it has no \<open>&\<close> and no \<open>#\<close> and decoding leaves it unchanged. A key with
  \<open>&\<close> or \<open>#\<close> is cut short, and a key with \<open>+\<close> or a percent escape is altered, so
  the service sees a different key.
\<close>

theorem request_url_api_key_iff:
  assumes "CHR ''?'' \<notin> set u" and "CHR ''#'' \<notin> set u"
  shows "query_get (request_url (JStr u) (JStr k)) ''apikey'' = Some k \<longleftrightarrow>
           CHR ''&'' \<notin> set k \<and> CHR ''#'' \<notin> set k \<and> pct_decode k = k"
proof -
  let ?v = "takeWhile (\<lambda>c. c \<noteq> CHR ''&'') (takeWhile (\<lambda>c. c \<noteq> CHR ''#'') k)"
  have short: "length ?v < length k" if "CHR ''&'' \<in> set k \<or> CHR ''#'' \<in> set k"
  proof (cases "CHR ''#'' \<in> set k")
    case True
    then have "length (takeWhile (\<lambda>c. c \<noteq> CHR ''#'') k) < length k"
      by (rule length_takeWhile_not_in)
    then show ?thesis by (meson length_takeWhile_le le_less_trans)
  next
    case False
    then show ?thesis using that by (simp add: length_takeWhile_not_in)
  qed
  have "pct_decode ?v = k \<longleftrightarrow> CHR ''&'' \<notin> set k \<and> CHR ''#'' \<notin> set k \<and> pct_decode k = k"
  proof
    assume dec: "pct_decode ?v = k"
    have "\<not> (CHR ''&'' \<in> set k \<or> CHR ''#'' \<in> set k)"
    proof
      assume "CHR ''&'' \<in> set k \<or> CHR ''#'' \<in> set k"
      then have "length (pct_decode ?v) < length k"
        using short pct_decode_length [of ?v] by linarith
      with dec show False by simp
    qed
    with dec show "CHR ''&'' \<notin> set k \<and> CHR ''#'' \<notin> set k \<and> pct_decode k = k" by simp
  qed simp
  then show ?thesis
    using request_url_apikey [OF assms, of k] by simp
qed

theorem request_url_api_key_iff_witness:
  "query_get (request_url (JStr ''http://h'') (JStr ''a&b'')) ''apikey'' \<noteq> Some ''a&b''"
  using request_url_api_key_iff [of "''http://h''" "''a&b''"] by simp

end
