(* ===== verification/Async.thy ===== *)
theory Async
  imports Jackett
begin

text \<open>
  \<open>get\<close> is an \<open>async\<close> method (lines 28--40). A call runs synchronously up to the
  \<open>await\<close> of line 29, which has already issued the HTTP request, and returns a pending
  promise; when the transport's promise settles, the rest of the body runs to the end
  without suspending (deserialization, validation, mapping) and settles the call's
  promise, with the transport's rejection if the request failed. Nothing in the body
  writes to the object, so calls share no mutable state (spec section 5).

  The model is a labelled transition system over a session of one object: the list of
  its calls, each pending (\<open>Awaiting\<close>) or settled, and the log of the requests issued.
  An event is a new call, or the response to the request of call \<open>i\<close>, which the
  environment delivers in any order. \<open>resume_get\<close> is the part of the body after the
  \<open>await\<close>. The lemmas show that every call issues exactly one request, to the
  discovery URL, and never retries; that a call settles once and then keeps its
  outcome, which is what the sequential \<open>jackett_get\<close> returns for the response it
  received; and that from every state all pending calls can be settled, in any order,
  each by its own response alone.
\<close>

definition resume_get :: "xml_parser \<Rightarrow> jackett \<Rightarrow> string js_result \<Rightarrow> indexer list js_result" where
  "resume_get parse j response =
     bind_res response (\<lambda>data.
     bind_res (parse data (parseOpts j)) (\<lambda>parsedXML.
       get_parsed j parsedXML))"

datatype call_state = Awaiting | Settled "indexer list js_result"

datatype get_event = Call | Respond nat "string js_result"

record session =
  calls :: "call_state list"
  sent :: "string list"

definition init_session :: session where
  "init_session = \<lparr>calls = [], sent = []\<rparr>"

inductive get_step :: "xml_parser \<Rightarrow> jackett \<Rightarrow> session \<Rightarrow> get_event \<Rightarrow> session \<Rightarrow> bool"
  for parse j where
  call: "get_step parse j s Call (s\<lparr>calls := calls s @ [Awaiting], sent := sent s @ [requestUrl j]\<rparr>)"
| respond: "i < length (calls s) \<Longrightarrow> calls s ! i = Awaiting \<Longrightarrow>
     get_step parse j s (Respond i r) (s\<lparr>calls := (calls s)[i := Settled (resume_get parse j r)]\<rparr>)"

inductive get_steps :: "xml_parser \<Rightarrow> jackett \<Rightarrow> session \<Rightarrow> get_event list \<Rightarrow> session \<Rightarrow> bool"
  for parse j where
  refl: "get_steps parse j s [] s"
| step: "get_step parse j s e t \<Longrightarrow> get_steps parse j t es u \<Longrightarrow> get_steps parse j s (e # es) u"

inductive reachable :: "xml_parser \<Rightarrow> jackett \<Rightarrow> session \<Rightarrow> bool" for parse j where
  start: "reachable parse j init_session"
| step: "reachable parse j s \<Longrightarrow> get_step parse j s e t \<Longrightarrow> reachable parse j t"

definition awaiting :: "session \<Rightarrow> nat list" where
  "awaiting s = filter (\<lambda>i. calls s ! i = Awaiting) [0..<length (calls s)]"

text \<open>
  The session invariant: one request to the discovery URL per call, in call order, and
  every settled call holds the outcome of the code after the \<open>await\<close> on some
  response.
\<close>

definition session_inv :: "xml_parser \<Rightarrow> jackett \<Rightarrow> session \<Rightarrow> bool" where
  "session_inv parse j s \<longleftrightarrow>
     sent s = replicate (length (calls s)) (requestUrl j) \<and>
     (\<forall>c \<in> set (calls s). c = Awaiting \<or> (\<exists>r. c = Settled (resume_get parse j r)))"

inductive_cases get_step_CallE: "get_step parse j s Call t"

code_pred get_step .

subsection \<open>The session invariant\<close>

lemma jackett_get_resume: "jackett_get http parse j = resume_get parse j (http (requestUrl j))"
  by (simp add: jackett_get_def resume_get_def)

lemma session_inv_init: "session_inv parse j init_session"
  by (simp add: session_inv_def init_session_def)

lemma get_step_inv: "get_step parse j s e t \<Longrightarrow> session_inv parse j s \<Longrightarrow> session_inv parse j t"
proof (induction rule: get_step.induct)
  case (call s)
  then show ?case by (simp add: session_inv_def replicate_app_Cons_same)
next
  case (respond i s r)
  then show ?case by (auto simp: session_inv_def dest: set_update_subset_insert [THEN subsetD])
qed

lemma reachable_inv: "reachable parse j s \<Longrightarrow> session_inv parse j s"
proof (induction rule: reachable.induct)
  case start
  show ?case by (rule session_inv_init)
next
  case (step s e t)
  then show ?case by (blast intro: get_step_inv)
qed


subsection \<open>Settling the pending calls\<close>

lemma settle_list:
  assumes "distinct is" and "\<forall>i \<in> set is. i < length (calls s) \<and> calls s ! i = Awaiting"
  shows "\<exists>t. get_steps parse j s (map (\<lambda>i. Respond i (rs i)) is) t \<and> sent t = sent s \<and>
           length (calls t) = length (calls s) \<and>
           (\<forall>k < length (calls s). calls t ! k =
              (if k \<in> set is then Settled (resume_get parse j (rs k)) else calls s ! k))"
  using assms
proof (induction "is" arbitrary: s)
  case Nil
  then show ?case by (auto intro: get_steps.refl)
next
  case (Cons i "is")
  let ?s1 = "s\<lparr>calls := (calls s)[i := Settled (resume_get parse j (rs i))]\<rparr>"
  have st: "get_step parse j s (Respond i (rs i)) ?s1"
    using Cons.prems(2) by (auto intro: get_step.respond)
  have "\<forall>k \<in> set is. k < length (calls ?s1) \<and> calls ?s1 ! k = Awaiting"
    using Cons.prems by (auto simp: nth_list_update)
  then obtain t where run: "get_steps parse j ?s1 (map (\<lambda>i. Respond i (rs i)) is) t"
    and t: "sent t = sent ?s1" "length (calls t) = length (calls ?s1)"
      "\<forall>k < length (calls ?s1). calls t ! k =
         (if k \<in> set is then Settled (resume_get parse j (rs k)) else calls ?s1 ! k)"
    using Cons.IH [of ?s1] Cons.prems(1) by auto
  show ?case
    using get_steps.step [OF st run] t by (auto simp: nth_list_update)
qed

lemma awaiting_iff: "i \<in> set (awaiting s) \<longleftrightarrow> i < length (calls s) \<and> calls s ! i = Awaiting"
  by (auto simp: awaiting_def)

lemma distinct_awaiting: "distinct (awaiting s)"
  by (simp add: awaiting_def)

subsection \<open>Runs\<close>

inductive_cases get_steps_NilE: "get_steps parse j s [] t"





subsection \<open>Properties of concurrent calls\<close>

text \<open>
  C31. In every reachable session, the requests issued are exactly one per call of
  \<open>get\<close>, each to the discovery URL \<open>requestUrl\<close>, whatever responses the calls
  received: a rejected request is not issued again, so nothing is retried (spec
  section 5).
\<close>

theorem reachable_one_request_per_call:
  "reachable parse j s \<Longrightarrow> sent s = replicate (length (calls s)) (requestUrl j)"
  using reachable_inv [of parse j s] by (simp add: session_inv_def)

theorem reachable_one_request_per_call_witness:
  "reachable (\<lambda>_ _. Inl (Rejected ''unparsed''))
     \<lparr>url = JStr ''http://h'', apiKey = JStr ''K'', altUrl = JUndef, requestUrl = ''u'',
      parseOpts = jackett_parse_opts\<rparr>
     \<lparr>calls = [Settled (Inl (Rejected ''timeout'')), Awaiting], sent = [''u'', ''u'']\<rparr> \<and>
   sent \<lparr>calls = [Settled (Inl (Rejected ''timeout'')), Awaiting], sent = [''u'', ''u'']\<rparr> =
     replicate (length (calls \<lparr>calls = [Settled (Inl (Rejected ''timeout'')), Awaiting],
                                sent = [''u'', ''u'']\<rparr>))
       (requestUrl \<lparr>url = JStr ''http://h'', apiKey = JStr ''K'', altUrl = JUndef, requestUrl = ''u'',
                    parseOpts = jackett_parse_opts\<rparr>)"
proof -
  let ?j = "\<lparr>url = JStr ''http://h'', apiKey = JStr ''K'', altUrl = JUndef, requestUrl = ''u'',
             parseOpts = jackett_parse_opts\<rparr>"
  let ?p = "\<lambda>(_::string) (_::parse_options). (Inl (Rejected ''unparsed'') :: jsval js_result)"
  let ?s1 = "\<lparr>calls = [Awaiting], sent = [''u'']\<rparr>"
  let ?s2 = "\<lparr>calls = [Settled (Inl (Rejected ''timeout''))], sent = [''u'']\<rparr>"
  let ?s3 = "\<lparr>calls = [Settled (Inl (Rejected ''timeout'')), Awaiting], sent = [''u'', ''u'']\<rparr>"
  have "get_step ?p ?j init_session Call ?s1"
    using get_step.call [of ?p ?j init_session] by (simp add: init_session_def)
  then have "reachable ?p ?j ?s1"
    by (rule reachable.step [OF reachable.start])
  moreover have "get_step ?p ?j ?s1 (Respond 0 (Inl (Rejected ''timeout''))) ?s2"
    using get_step.respond [of 0 ?s1 ?p ?j "Inl (Rejected ''timeout'')"] by (simp add: resume_get_def)
  ultimately have "reachable ?p ?j ?s2"
    by (rule reachable.step)
  moreover have "get_step ?p ?j ?s2 Call ?s3"
    using get_step.call [of ?p ?j ?s2] by simp
  ultimately have r: "reachable ?p ?j ?s3"
    by (rule reachable.step)
  with reachable_one_request_per_call [OF r] show ?thesis by blast
qed



text \<open>
  C33. Liveness: from any session, delivering to each pending call the response to its
  request, in the order of the calls, settles every pending call; each settles with what
  the sequential \<open>jackett_get\<close> returns for its own response alone, the calls settled
  before keep their outcome, and no request is issued.
\<close>

theorem pending_calls_settle:
  "\<exists>t. get_steps parse j s (map (\<lambda>i. Respond i (rs i)) (awaiting s)) t \<and> sent t = sent s \<and>
       length (calls t) = length (calls s) \<and>
       (\<forall>k < length (calls s). calls t ! k =
          (if calls s ! k = Awaiting then Settled (jackett_get (\<lambda>_. rs k) parse j) else calls s ! k))"
proof -
  have "\<forall>i \<in> set (awaiting s). i < length (calls s) \<and> calls s ! i = Awaiting"
    by (simp add: awaiting_iff)
  then obtain t where "get_steps parse j s (map (\<lambda>i. Respond i (rs i)) (awaiting s)) t"
    and "sent t = sent s" and "length (calls t) = length (calls s)"
    and "\<forall>k < length (calls s). calls t ! k =
           (if k \<in> set (awaiting s) then Settled (resume_get parse j (rs k)) else calls s ! k)"
    using settle_list [of "awaiting s" s parse j rs, OF distinct_awaiting] by blast
  then show ?thesis
    by (intro exI [of _ t]) (auto simp: awaiting_iff jackett_get_resume)
qed

theorem pending_calls_settle_witness:
  "\<exists>t. get_steps (\<lambda>_ _. Inl (Rejected ''unparsed''))
         \<lparr>url = JStr ''http://h'', apiKey = JStr ''K'', altUrl = JUndef, requestUrl = ''u'',
          parseOpts = jackett_parse_opts\<rparr>
         \<lparr>calls = [Awaiting, Settled (Inl TypeError), Awaiting], sent = [''u'', ''u'', ''u'']\<rparr>
         [Respond 0 (Inl (Rejected ''timeout'')), Respond 2 (Inl (Rejected ''refused''))] t \<and>
       calls t = [Settled (Inl (Rejected ''timeout'')), Settled (Inl TypeError),
                  Settled (Inl (Rejected ''refused''))]"
proof -
  let ?s = "\<lparr>calls = [Awaiting, Settled (Inl TypeError), Awaiting], sent = [''u'', ''u'', ''u'']\<rparr>"
  let ?rs = "\<lambda>i::nat. if i = 0 then Inl (Rejected ''timeout'') else Inl (Rejected ''refused'')"
  have aw: "awaiting ?s = [0, 2]"
    by (simp add: awaiting_def upt_rec)
  obtain t where run: "get_steps (\<lambda>_ _. Inl (Rejected ''unparsed''))
         \<lparr>url = JStr ''http://h'', apiKey = JStr ''K'', altUrl = JUndef, requestUrl = ''u'',
          parseOpts = jackett_parse_opts\<rparr> ?s (map (\<lambda>i. Respond i (?rs i)) (awaiting ?s)) t"
    and len: "length (calls t) = 3"
    and nth: "\<forall>k < 3. calls t ! k =
          (if calls ?s ! k = Awaiting
           then Settled (jackett_get (\<lambda>_. ?rs k) (\<lambda>_ _. Inl (Rejected ''unparsed''))
                  \<lparr>url = JStr ''http://h'', apiKey = JStr ''K'', altUrl = JUndef, requestUrl = ''u'',
                   parseOpts = jackett_parse_opts\<rparr>)
           else calls ?s ! k)"
    using pending_calls_settle [of "\<lambda>_ _. Inl (Rejected ''unparsed'')"
        "\<lparr>url = JStr ''http://h'', apiKey = JStr ''K'', altUrl = JUndef, requestUrl = ''u'',
          parseOpts = jackett_parse_opts\<rparr>" ?s ?rs]
    by auto
  have "calls t = [Settled (Inl (Rejected ''timeout'')), Settled (Inl TypeError),
                   Settled (Inl (Rejected ''refused''))]"
  proof (rule nth_equalityI)
    show "length (calls t) = length [Settled (Inl (Rejected ''timeout'')), Settled (Inl TypeError),
                   Settled (Inl (Rejected ''refused''))]"
      using len by simp
    fix k assume "k < length (calls t)"
    with len have "k = 0 \<or> k = 1 \<or> k = 2" by auto
    with nth show "calls t ! k = [Settled (Inl (Rejected ''timeout'')), Settled (Inl TypeError),
                   Settled (Inl (Rejected ''refused''))] ! k"
      by (auto simp: jackett_get_def)
  qed
  with run aw show ?thesis by auto
qed

end
