(* ===== verification/Spec2Isabelle.thy ===== *)
theory Spec2Isabelle
  imports XmlTree RequestUrl Async
begin

text \<open>
  \<^bold>\<open>A verification model of jackett-sync-ts's Jackett client\<close> (src/src/jackett.ts).

  \<^bold>\<open>The program.\<close> The class \<open>Jackett\<close> reads the Jackett base URL, an alternate URL
  and the API key from the configuration when it is constructed, and builds the URL of
  the indexer-discovery endpoint. Its method \<open>get\<close> fetches that URL (axios),
  deserializes the XML body (fast-xml-parser, with attributes kept under their own
  names), throws \<open>Error('Jackett: ' + description)\<close> when the document carries an
  \<open>error\<close> element (the Response Validator), and otherwise maps \<open>mapToIndexer\<close> over
  \<open>indexers.indexer\<close> (the Indexer Normalizer). \<open>mapToIndexer\<close> flattens the
  category tree of an entry with \<open>parseCategories\<close> and builds an \<open>Indexer\<close> whose
  endpoint is \<open>(altUrl || url) + '/api/v2.0/indexers/' + id + '/results/torznab/'\<close>.

  \<^bold>\<open>The library.\<close>
  \<^item> \<open>Prelude\<close>: the result type \<open>'e + 'a\<close> of code that may throw, sequencing
    (\<open>bind_res\<close>), the all-or-nothing \<open>Array.prototype.map\<close> (\<open>mapM_res\<close>), loops
    with an accumulator (\<open>foldM_res\<close>), and their lemmas (first error wins, length,
    accumulator loop equals concatenation).
  \<^item> \<open>ParseInt\<close>: JavaScript numbers (\<open>NaN\<close> or an integral value), decimal printing,
    and \<open>parseInt\<close> with whitespace, sign, \<open>0x\<close> prefix and trailing garbage;
    \<open>parse_int_str_string_of_int\<close> shows that parsing a printed integer gives it back.
  \<^item> \<open>JsValue\<close>: the values the deserializer produces and the ECMAScript operations the
    code applies to them: ToBoolean, member access (TypeError on \<open>undefined\<close> and
    \<open>null\<close>), \<open>Array.isArray\<close>, ToString, \<open>||\<close>, \<open>parseInt\<close>, \<open>.map\<close>.
  \<^item> \<open>XmlShape\<close>: the deserializer's output convention (a single child is a bare
    object, repeated children an array, an empty element the empty string), used to
    state inputs of the refinement theorems.
  \<^item> \<open>XmlTree\<close>: the deserializer's conversion of a document tree into that output
    (\<open>xml_to_js\<close>, fast-xml-parser's tree-to-object step, with the conversion of
    element text as a parameter), the document of a discovery response, the proof that
    converting it gives the encoding of \<open>XmlShape\<close>, and what \<open>mapToIndexer\<close>
    makes of a title the deserializer turns into a number.
  \<^item> \<open>Categories\<close>: \<open>parseCategories\<close> (lines 42--65) as a fold over the normalized
    array (\<open>as_array\<close>, \<open>push_category\<close>, \<open>push_subcat\<close>); its equivalence with a
    reference that concatenates the ids of each category; its refinement to an abstract
    category tree; its errors and its totality.
  \<^item> \<open>Jackett\<close>: the class fields (\<open>jackett\<close>), \<open>parseOpts\<close>, the constructor
    (\<open>jackett_init\<close>), \<open>mapToIndexer\<close> (\<open>map_to_indexer\<close>, \<open>indexer_url\<close>), the
    Response Validator (\<open>validate_response\<close>) and \<open>get\<close> (\<open>get_parsed\<close>,
    \<open>jackett_get\<close>), with the HTTP client and the XML parser as parameters.
  \<^item> \<open>Interfaces\<close>: the TypeScript types the code is written against (the parameter
    type of \<open>parseCategories\<close>, the field types of the class, the interfaces
    \<open>CategoryEntry\<close> and \<open>JackettEntry\<close>, the configuration) as a datatype
    \<open>ts_type\<close> with the run-time conformance predicate \<open>conforms\<close>, and type
    soundness of the code: progress (no exception on values of the declared types) and
    preservation (results of the declared types).
  \<^item> \<open>RequestUrl\<close>: how a URL reader (WHATWG query parsing and
    \<open>URLSearchParams.get\<close>) reads the discovery URL of line 25, and which API keys it
    reads back.
  \<^item> \<open>Async\<close>: the \<open>async\<close> method as a labelled transition system over the
    concurrent calls of one object (\<open>get_step\<close>: a call issues its request and awaits;
    the response to call \<open>i\<close> runs the rest of the body, \<open>resume_get\<close>, and settles
    its promise), with its reachable sessions and their invariant.

  \<^bold>\<open>Modelling choices.\<close> Every exception is a value \<open>Inl e\<close>: a TypeError raised by
  the engine, an \<open>Error\<close> with its message, or a rejection of an external collaborator.
  The \<open>async\<close> method is modelled by its settled outcome (a rejected promise is
  \<open>Inl\<close>), and in \<open>Async\<close> by the interleavings of its calls, where the environment
  delivers the responses in any order. Array callbacks run left to right and the first exception aborts the loop,
  so the order of effects is the order of the fold. Numbers are integral or \<open>NaN\<close>;
  IEEE rounding beyond \<open>2^53\<close> and the sign of zero are not modelled, and no operation of
  the code depends on them. Strings are lists of 8-bit characters; \<open>parseInt\<close> skips
  ASCII whitespace only. No loop of the program is unbounded: every recursion of the
  model is structural, so no fuel is needed.

  \<^bold>\<open>Not modelled.\<close> The HTTP transport (axios), the XML deserializer's reading of
  text into a tree (its conversion of the tree is \<open>XmlTree\<close>, with the conversion of
  element text beyond digit strings left as a parameter), the configuration loader
  (src/config) and the storage of \<open>Indexer\<close> objects are external collaborators, none
  of them code of the repository: \<open>jackett_get\<close> takes the first two as parameters
  (the transport is pure I/O; the HTTP response object is represented by its
  \<open>data\<close>), the configuration is
  the value \<open>Config.jackett\<close> given to \<open>jackett_init\<close>, and the \<open>Indexer\<close>
  constructor is a record. The interfaces of src/interfaces and the configuration's type
  are not in the sources and are written from spec sections 3 and 6. The reader of the
  discovery URL is the service's, outside the program; the percent-encoding the URL
  serializer applies to characters such as spaces, which the reader's decoding undoes, is
  left out.

  \<^bold>\<open>What is proved.\<close> The claims C1--C33, each stated after a text block naming it:
  \<^item> refinement: \<open>get\<close> end to end (C1, here), category flattening against the
    abstract category tree (C2), \<open>mapToIndexer\<close> against the normalized record of
    spec section 4.2 (C4);
  \<^item> equivalence: the accumulator loop against the per-category reference (C3), and
    the single-versus-list coercion (C11);
  \<^item> functional behaviour: the endpoint choice between alternate and base URL (C6),
    the discovery URL built by the constructor (C12), the numeric prefix read from an
    identifier (C17), the order and count of the records \<open>get\<close> returns (C9);
  \<^item> round trip: the API key and the fixed parameters are read back from the discovery
    URL, for keys without \<open>& # % +\<close> (C29);
  \<^item> types: \<open>mapToIndexer\<close> (C24), \<open>get\<close> after deserialization (C25) and end to end
    (C27, here) do not throw on values of their declared types and build \<open>Indexer\<close>
    records of the constructor's parameter types; the constructor stores a configuration
    of its type (C26); the deserializer's output for an entry has the type
    \<open>JackettEntry\<close> exactly when the entry has a category and a string title (C28),
    and a title of digits, which the deserializer makes a number, reaches the
    \<open>Indexer\<close> as a numeric name (C20);
  \<^item> bounds: an identifier of \<open>n\<close> decimal digits gives a value below \<open>10^n\<close> (C23);
  \<^item> invariants and safety: the fixed fields of every record (C14), all-or-nothing
    (C8);
  \<^item> errors: the validator's error and its message (C5, C16), the error kinds of
    \<open>get\<close> (C22) and of the constructor (C13), the exact conditions under which
    \<open>get\<close> (C18) and \<open>mapToIndexer\<close> (C19) succeed, the totality of
    \<open>parseCategories\<close> (C10);
  \<^item> concurrent calls (\<open>Async\<close>): every reachable session has issued exactly one
    request per call, to the discovery URL, whatever responses the calls received, so a
    rejected request is not retried (C31, invariant by rule induction); in every run, a
    pending call settles with what the sequential \<open>jackett_get\<close> returns for the first
    response delivered to it, and keeps that outcome (C32, by induction over runs); and
    from any session every pending call settles once its response arrives,
    independently of the others (C33, liveness).
  \<^item> the divergences modelling revealed: zero or one configured indexer makes
    \<open>get\<close> throw a TypeError (C7), identifiers are parsed without any check (C17),
    an indexer without categories aborts \<open>get\<close> (C15), a missing API key becomes the
    text \<open>undefined\<close> in the request URL (C21), an error element without a description
    gives the message \<open>Jackett: undefined\<close> (the example after C22), an unset
    alternate URL leaves \<open>undefined\<close> in a field declared \<open>string\<close> (C26), and the
    API key is not encoded, so a key with \<open>&\<close>, \<open>#\<close>, \<open>+\<close> or a percent escape
    reaches the service altered (C30).
  The refinement theorems take the deserializer's output for an abstract catalog
  (\<open>enc_response\<close>, \<open>enc_entry\<close>, \<open>enc_category_list\<close>, built from
  \<open>xml_element\<close>) as input, under the options the program passes, so the option
  record \<open>parseOpts\<close> is part of what they check; \<open>XmlTree\<close> shows that the
  deserializer's conversion of the document tree of a discovery response produces that
  encoding. No theorem states termination separately: every loop of the program runs
  over a finite array, and every function of the model is total by structural or
  size-decreasing recursion, which the definitions themselves establish.

  \<^bold>\<open>Plan.\<close> Category flattening was modelled first (the core of the normalizer),
  then the entry mapping, the validator and \<open>get\<close>, then the end-to-end refinement,
  then the error characterizations and the numeric bounds, then type soundness against
  the declared TypeScript types, the reading of the discovery URL and the concurrent
  calls of the \<open>async\<close> method, and last the deserializer's conversion of the document
  tree. What remains is outside \<open>src/\<close>: the deserializer's reading of XML text, the
  configuration loader and the \<open>Indexer\<close> class; within \<open>src/\<close> only the import lines
  are not mapped.
\<close>

section \<open>Properties of get as a whole\<close>

text \<open>
  C1. End-to-end refinement of \<open>get\<close>: for an object built by the constructor, if the
  transport returns a body for the discovery URL and the deserializer (with the
  object's \<open>parseOpts\<close>) turns it into a catalog of at least two indexers, each with at
  least one category, \<open>get\<close> returns the normalized records of spec section 4.2, one per
  indexer, in the order of the response.
\<close>

theorem get_refines:
  assumes "jackett_init cfg = Inr j"
    and "http (requestUrl j) = Inr body"
    and "parse body jackett_parse_opts = Inr (enc_response jackett_parse_opts es)"
    and "2 \<le> length es" and "\<forall>e \<in> set es. e_cats e \<noteq> []"
  shows "jackett_get http parse j = Inr (map (normalize_entry j) es)"
proof -
  have "parseOpts j = jackett_parse_opts"
    using assms(1) by (rule jackett_init_parseOpts)
  with assms(2,3) have "jackett_get http parse j = get_parsed j (enc_response jackett_parse_opts es)"
    by (simp add: jackett_get_def)
  also have "\<dots> = Inr (map (normalize_entry j) es)"
    using assms(4,5) by (simp add: get_parsed_enc)
  finally show ?thesis .
qed

theorem get_refines_witness:
  "jackett_get (\<lambda>_. Inr ''<indexers/>'')
     (\<lambda>_ _. Inr (enc_response jackett_parse_opts
        [\<lparr>e_id = ''a'', e_title = JStr ''A'', e_cats = [Category 2000 ''Movies'' [(2010, ''Foreign'')]]\<rparr>,
         \<lparr>e_id = ''b'', e_title = JStr ''B'', e_cats = [Category 5000 ''TV'' []]\<rparr>]))
     \<lparr>url = JStr ''http://h'', apiKey = JStr ''K'', altUrl = JStr [],
      requestUrl = ''http://h/api/v2.0/indexers/all/results/torznab/api?apikey=K&t=indexers&configured=true'',
      parseOpts = jackett_parse_opts\<rparr> =
   Inr [\<lparr>ix_id = JStr ''a'', ix_priority = 0, ix_name = JStr ''A'', ix_protocol = ''torrent'',
         ix_categories = [Num 2000, Num 2010], ix_reserved = 0,
         ix_url = ''http://h/api/v2.0/indexers/a/results/torznab/'', ix_api_key = JStr ''K''\<rparr>,
        \<lparr>ix_id = JStr ''b'', ix_priority = 0, ix_name = JStr ''B'', ix_protocol = ''torrent'',
         ix_categories = [Num 5000], ix_reserved = 0,
         ix_url = ''http://h/api/v2.0/indexers/b/results/torznab/'', ix_api_key = JStr ''K''\<rparr>]"
proof -
  let ?cfg = "JObj [(''url'', JStr ''http://h''), (''altUrl'', JStr []), (''apiKey'', JStr ''K'')]"
  let ?j = "\<lparr>url = JStr ''http://h'', apiKey = JStr ''K'', altUrl = JStr [],
      requestUrl = ''http://h/api/v2.0/indexers/all/results/torznab/api?apikey=K&t=indexers&configured=true'',
      parseOpts = jackett_parse_opts\<rparr>"
  have init: "jackett_init ?cfg = Inr ?j"
    by (simp add: jackett_init_def request_url_def)
  show ?thesis
    using get_refines [OF init, of "\<lambda>_. Inr ''<indexers/>''" "''<indexers/>''"
        "\<lambda>_ _. Inr (enc_response jackett_parse_opts
          [\<lparr>e_id = ''a'', e_title = JStr ''A'', e_cats = [Category 2000 ''Movies'' [(2010, ''Foreign'')]]\<rparr>,
           \<lparr>e_id = ''b'', e_title = JStr ''B'', e_cats = [Category 5000 ''TV'' []]\<rparr>])"]
    by (simp add: normalize_entry_def cat_flatten_def indexer_url_def)
qed

text \<open>
  C16. End to end, a response carrying an \<open>error\<close> element makes \<open>get\<close> fail with
  \<open>Error('Jackett: ' + description)\<close>, the service's description verbatim (spec
  section 8).
\<close>

theorem get_service_error:
  assumes "jackett_init cfg = Inr j"
    and "http (requestUrl j) = Inr body"
    and "parse body jackett_parse_opts = Inr (enc_error jackett_parse_opts code msg)"
  shows "jackett_get http parse j = Inl (Error (''Jackett: '' @ msg))"
proof -
  have "parseOpts j = jackett_parse_opts"
    using assms(1) by (rule jackett_init_parseOpts)
  with assms(2,3) show ?thesis
    by (simp add: jackett_get_def get_parsed_enc_error)
qed

theorem get_service_error_witness:
  "jackett_get (\<lambda>_. Inr ''<error/>'')
     (\<lambda>_ _. Inr (enc_error jackett_parse_opts ''100'' ''Invalid API Key''))
     \<lparr>url = JStr ''http://h'', apiKey = JStr ''bad'', altUrl = JUndef,
      requestUrl = ''http://h/api/v2.0/indexers/all/results/torznab/api?apikey=bad&t=indexers&configured=true'',
      parseOpts = jackett_parse_opts\<rparr> =
   Inl (Error ''Jackett: Invalid API Key'')"
proof -
  have init: "jackett_init (JObj [(''url'', JStr ''http://h''), (''apiKey'', JStr ''bad'')]) =
      Inr \<lparr>url = JStr ''http://h'', apiKey = JStr ''bad'', altUrl = JUndef,
      requestUrl = ''http://h/api/v2.0/indexers/all/results/torznab/api?apikey=bad&t=indexers&configured=true'',
      parseOpts = jackett_parse_opts\<rparr>"
    by (simp add: jackett_init_def request_url_def)
  show ?thesis
    using get_service_error [OF init, of "\<lambda>_. Inr ''<error/>''" "''<error/>''"
        "\<lambda>_ _. Inr (enc_error jackett_parse_opts ''100'' ''Invalid API Key'')"]
    by simp
qed

text \<open>
  C27. Type soundness of \<open>get\<close> end to end: for an object built from a configuration of
  the declared type, if the transport returns a body for the discovery URL and the
  deserializer turns it into a document that reports no error and lists its indexers as
  an array of \<open>JackettEntry\<close> values, \<open>get\<close> returns, and every record has string id,
  name and API key.
\<close>

theorem get_type_sound:
  assumes "conforms cfg config_ty" and "jackett_init cfg = Inr j"
    and "http (requestUrl j) = Inr body" and "parse body (parseOpts j) = Inr p"
    and "conforms p indexer_list_ty"
  shows "\<exists>ixs. jackett_get http parse j = Inr ixs \<and> (\<forall>ix \<in> set ixs. indexer_conforms ix)"
proof -
  have "conforms (apiKey j) TString"
    using jackett_init_conforms [OF assms(1)] assms(2) by auto
  then show ?thesis
    using get_parsed_conforms [OF _ assms(5)] assms(3,4) by (simp add: jackett_get_def)
qed

theorem get_type_sound_witness:
  "\<exists>ixs. jackett_get (\<lambda>_. Inr ''<indexers/>'')
     (\<lambda>_ _. Inr (JObj [(''indexers'', JObj [(''indexer'', JArr
             [JObj [(''id'', JStr ''5''), (''title'', JStr ''T''),
                    (''caps'', JObj [(''categories'', JObj [(''category'', JObj [(''id'', JStr ''2000'')])])])]])])]))
     \<lparr>url = JStr ''http://h'', apiKey = JStr ''K'', altUrl = JUndef,
      requestUrl = ''http://h/api/v2.0/indexers/all/results/torznab/api?apikey=K&t=indexers&configured=true'',
      parseOpts = jackett_parse_opts\<rparr> = Inr ixs \<and> (\<forall>ix \<in> set ixs. indexer_conforms ix)"
proof -
  have init: "jackett_init (JObj [(''url'', JStr ''http://h''), (''apiKey'', JStr ''K'')]) =
      Inr \<lparr>url = JStr ''http://h'', apiKey = JStr ''K'', altUrl = JUndef,
      requestUrl = ''http://h/api/v2.0/indexers/all/results/torznab/api?apikey=K&t=indexers&configured=true'',
      parseOpts = jackett_parse_opts\<rparr>"
    by (simp add: jackett_init_def request_url_def)
  let ?p = "JObj [(''indexers'', JObj [(''indexer'', JArr
             [JObj [(''id'', JStr ''5''), (''title'', JStr ''T''),
                    (''caps'', JObj [(''categories'', JObj [(''category'', JObj [(''id'', JStr ''2000'')])])])]])])]"
  have "conforms ?p indexer_list_ty"
    by (simp add: ts_type_defs)
  then show ?thesis
    by (intro get_type_sound [OF _ init, where p = ?p]) (simp_all add: ts_type_defs)
qed

end
